theory Spec2Isabelle
  imports Main
begin

section \<open>Python values used by the pipeline\<close>

text \<open>
  Strings are \<open>string\<close>. A \<open>datetime.date\<close> is its proleptic Gregorian ordinal
  (\<open>date.toordinal()\<close>), so that \<open>a - b\<close> on dates is a \<open>timedelta\<close> whose \<open>days\<close> is the
  difference of the ordinals. An \<open>Optional[T]\<close> is \<open>T option\<close>.
\<close>

type_synonym date = int

record timedelta =
  days :: int

definition date_sub :: "date \<Rightarrow> date \<Rightarrow> timedelta" where
  \<comment> \<open>\<open>date.__sub__\<close>: only the day count differs between two dates.\<close>
  "date_sub a b = \<lparr>days = a - b\<rparr>"

definition timedelta_abs :: "timedelta \<Rightarrow> timedelta" where
  \<comment> \<open>\<open>timedelta.__abs__\<close>: \<open>-self if self.days < 0 else self\<close>.\<close>
  "timedelta_abs d = (if days d < 0 then \<lparr>days = - days d\<rparr> else d)"

definition truthy_str :: "string option \<Rightarrow> bool" where
  \<comment> \<open>Truth value of an \<open>Optional[str]\<close>: \<open>None\<close> and \<open>""\<close> are false.\<close>
  "truthy_str s = (case s of None \<Rightarrow> False | Some v \<Rightarrow> v \<noteq> [])"

definition truthy_int :: "int option \<Rightarrow> bool" where
  \<comment> \<open>Truth value of an \<open>Optional[int]\<close>: \<open>None\<close> and \<open>0\<close> are false.\<close>
  "truthy_int i = (case i of None \<Rightarrow> False | Some v \<Rightarrow> v \<noteq> 0)"

definition zfill :: "nat \<Rightarrow> string \<Rightarrow> string" where
  \<comment> \<open>\<open>str.zfill(width)\<close>: pad with zeros on the left, after a leading sign if any.\<close>
  "zfill width s =
     (if width \<le> length s then s
      else (let fill = replicate (width - length s) CHR ''0'' in
        case s of
          [] \<Rightarrow> fill
        | c # rest \<Rightarrow> if c = CHR ''+'' \<or> c = CHR ''-'' then c # fill @ rest else fill @ s))"

definition digit_char :: "nat \<Rightarrow> char" where
  "digit_char d = char_of (48 + d)"

function str_nat :: "nat \<Rightarrow> string" where
  "str_nat n = (if n < 10 then [digit_char n] else str_nat (n div 10) @ [digit_char (n mod 10)])"
  by pat_completeness auto
termination
  by (relation "measure id") auto

declare str_nat.simps [simp del]

definition str_int :: "int \<Rightarrow> string" where
  \<comment> \<open>\<open>str(i)\<close> of a Python int.\<close>
  "str_int i = (if i < 0 then CHR ''-'' # str_nat (nat (- i)) else str_nat (nat i))"

definition rfind_dot :: "string \<Rightarrow> nat option" where
  \<comment> \<open>\<open>name.rfind('.')\<close>, with \<open>None\<close> for Python's -1.\<close>
  "rfind_dot name =
     (case dropWhile (\<lambda>c. c \<noteq> CHR ''.'') (rev name) of
        [] \<Rightarrow> None
      | _ # front \<Rightarrow> Some (length front))"

definition path_suffix :: "string \<Rightarrow> string" where
  \<comment> \<open>\<open>PurePath.suffix\<close> of a file name: \<open>name[i:]\<close> if \<open>0 < i < len(name) - 1\<close>, else \<open>''\<close>.\<close>
  "path_suffix name =
     (case rfind_dot name of
        None \<Rightarrow> []
      | Some i \<Rightarrow> if 0 < i \<and> i + 1 < length name then drop i name else [])"

definition path_stem :: "string \<Rightarrow> string" where
  \<comment> \<open>\<open>PurePath.stem\<close> of a file name: \<open>name[:i]\<close> under the same test, else the name.\<close>
  "path_stem name =
     (case rfind_dot name of
        None \<Rightarrow> name
      | Some i \<Rightarrow> if 0 < i \<and> i + 1 < length name then take i name else name)"

text \<open>
  A \<open>pathlib.Path\<close> (on POSIX) is the list of its parts, the first of which is \<open>/\<close> or \<open>//\<close>
  when the path is absolute. \<open>p / s\<close> splits the segment \<open>s\<close> at its separators, drops the
  empty and the \<open>.\<close> pieces, and appends the rest; a segment that starts with a separator
  is absolute and replaces \<open>p\<close>.
\<close>

type_synonym path = "string list"

fun split_on :: "char \<Rightarrow> string \<Rightarrow> string list" where
  "split_on c [] = [[]]"
| "split_on c (x # xs) =
     (if x = c then [] # split_on c xs
      else (case split_on c xs of [] \<Rightarrow> [[x]] | w # ws \<Rightarrow> (x # w) # ws))"

definition segment_parts :: "string \<Rightarrow> string list" where
  "segment_parts s = filter (\<lambda>w. w \<noteq> [] \<and> w \<noteq> ''.'') (split_on CHR ''/'' s)"

definition path_div :: "path \<Rightarrow> string \<Rightarrow> path" where
  "path_div p s =
     (if take 1 s = ''/''
      then (if take 2 s = ''//'' \<and> take 3 s \<noteq> ''///'' then ''//'' else ''/'') # segment_parts s
      else p @ segment_parts s)"

definition plain_segment :: "string \<Rightarrow> bool" where
  \<comment> \<open>A segment that is one part of a path: not empty, not \<open>.\<close>, without a separator.\<close>
  "plain_segment s = (s \<noteq> [] \<and> s \<noteq> ''.'' \<and> CHR ''/'' \<notin> set s)"

definition path_name :: "path \<Rightarrow> string" where
  \<comment> \<open>\<open>PurePath.name\<close>: the last part, empty for a path that is only a root.\<close>
  "path_name p = (if p = [] \<or> p = [''/''] \<or> p = [''//''] then [] else last p)"

section \<open>The canonical metadata schema\<close>

text \<open>
  Modelled from the spec: the classes of \<open>perdoo.models.metadata\<close>, whose declarations
  are not among the sources. The specification gives the canonical schema as series
  (title, volume, publisher), issue (number, format kind, title, summary, dates, credits,
  characters, teams, locations, story arcs, resource identifiers), page list and
  provenance stamp (tool and date); a resource is a pair (source system, value), compared
  and hashed by its two fields. The records hold the fields that \<open>__main__.py\<close> and
  \<open>services/comicvine.py\<close> read and write, under the names used there; the format kinds
  are those \<open>generate_filename\<close> names, and the sources are the four services.
\<close>

datatype Format = ANNUAL | COMIC | DIGITAL_CHAPTER | GRAPHIC_NOVEL | HARDCOVER | TRADE_PAPERBACK

datatype Source = COMICVINE | LEAGUE_OF_COMIC_GEEKS | MARVEL | METRON

record Resource =
  source :: Source
  "value" :: int

record TitledResource =
  tr_title :: string
  tr_resources :: "Resource list"

record Credit =
  creator :: TitledResource
  roles :: "TitledResource list"

record StoryArc =
  arc_title :: string
  arc_resources :: "Resource list"

record Publisher =
  pub_resources :: "Resource list"
  pub_title :: string

record Series =
  publisher :: Publisher
  series_resources :: "Resource list"
  start_year :: "int option"
  series_title :: string
  volume :: int

record Issue =
  characters :: "TitledResource list"
  cover_date :: "date option"
  credits :: "Credit list"
  format :: Format
  locations :: "TitledResource list"
  number :: "string option"
  issue_resources :: "Resource list"
  series :: Series
  store_date :: "date option"
  story_arcs :: "StoryArc list"
  summary :: "string option"
  teams :: "TitledResource list"
  issue_title :: "string option"

record Tool =
  tool_name :: string
  tool_version :: string

record Meta =
  meta_date :: date  \<comment> \<open>the field \<open>date_\<close>\<close>
  tool :: Tool

record Page =
  page_index :: nat
  page_filename :: string
  is_final_page :: bool

record Metadata =
  issue :: Issue
  meta :: Meta
  pages :: "Page list"

section \<open>Filename generator\<close>

definition series_filename :: "Metadata \<Rightarrow> string" where
  "series_filename metadata =
     (if volume (series (issue metadata)) > 1
      then series_title (series (issue metadata)) @ '' v'' @ str_int (volume (series (issue metadata)))
      else series_title (series (issue metadata)))"

definition number_str :: "Metadata \<Rightarrow> string" where
  \<comment> \<open>\<open>if metadata.issue.number\<close>: a missing or empty number gives no number part.\<close>
  "number_str metadata =
     (case number (issue metadata) of
        None \<Rightarrow> ''''
      | Some n \<Rightarrow>
          if n \<noteq> []
          then ''_#'' @ zfill (if format (issue metadata) = COMIC then 3 else 2) n
          else '''')"

definition format_str :: "Metadata \<Rightarrow> string" where
  "format_str metadata =
     (case map_of
        [(ANNUAL, ''_Annual''), (DIGITAL_CHAPTER, ''_Chapter''), (GRAPHIC_NOVEL, ''_GN''),
         (HARDCOVER, ''_HC''), (TRADE_PAPERBACK, ''_TP'')] (format (issue metadata)) of
        Some s \<Rightarrow> s
      | None \<Rightarrow> '''')"

definition issue_filename :: "(string \<Rightarrow> string) \<Rightarrow> Metadata \<Rightarrow> string" where
  "issue_filename sanitize metadata =
     (if format (issue metadata) \<in> set [ANNUAL, DIGITAL_CHAPTER]
      then sanitize (series_filename metadata) @ format_str metadata @ number_str metadata
      else if format (issue metadata) \<in> set [GRAPHIC_NOVEL, HARDCOVER, TRADE_PAPERBACK]
      then sanitize (series_filename metadata) @ number_str metadata @ format_str metadata
      else sanitize (series_filename metadata) @ number_str metadata)"

definition generate_filename ::
  "(string \<Rightarrow> string) \<Rightarrow> path \<Rightarrow> string \<Rightarrow> Metadata \<Rightarrow> path" where
  \<comment> \<open>\<open>sanitize\<close> is \<open>perdoo.utils.sanitize\<close>, taken as a parameter.\<close>
  "generate_filename sanitize root extension metadata =
     path_div
       (path_div
         (path_div root (sanitize (pub_title (publisher (series (issue metadata))))))
         (sanitize (series_filename metadata)))
       (issue_filename sanitize metadata @ ''.'' @ extension)"

section \<open>The interchange schemas\<close>

text \<open>
  Modelled from the spec: the classes of \<open>perdoo.models.metron_info\<close> and
  \<open>perdoo.models.comic_info\<close>, whose declarations are not among the sources: two
  projections of the same issue facts, each with its own field names and its own page
  list. The records hold the fields that \<open>services/comicvine.py\<close> and \<open>__main__.py\<close>
  assign. \<open>MetronInfo.cover_date\<close> holds whatever Python value is assigned to it, so its
  type is a small universe of such values.
\<close>

datatype pyval = PyDate date | PyTuple "pyval list"

datatype InformationSource = COMIC_VINE | INFO_LEAGUE_OF_COMIC_GEEKS | INFO_MARVEL | INFO_METRON

datatype Role = OTHER | Role string

record MI_Source =
  mis_source :: InformationSource
  mis_value :: int

record MI_Resource =
  mir_id :: "int option"
  mir_value :: string

record MI_Series =
  mise_id :: "int option"
  mise_name :: string

record MI_Arc =
  mia_id :: "int option"
  mia_name :: string

record MI_RoleResource =
  mirr_value :: Role

record MI_Credit =
  mic_creator :: MI_Resource
  mic_roles :: "MI_RoleResource list"

record MetronPage =
  mp_image :: nat
  mp_filename :: string
  mp_is_final_page :: bool

record MetronInfo =
  mi_id :: "MI_Source option"
  mi_publisher :: MI_Resource
  mi_series :: MI_Series
  mi_arcs :: "MI_Arc list"
  mi_characters :: "MI_Resource list"
  mi_cover_date :: pyval
  mi_credits :: "MI_Credit list"
  mi_locations :: "MI_Resource list"
  mi_number :: "string option"
  mi_store_date :: "date option"
  mi_summary :: "string option"
  mi_teams :: "MI_Resource list"
  mi_collection_title :: "string option"
  mi_url :: "string option"
  mi_pages :: "MetronPage list"

record ComicPage =
  cp_image :: nat
  cp_filename :: string
  cp_is_final_page :: bool

record ComicInfo =
  ci_publisher :: "string option"
  ci_series :: "string option"
  ci_character_list :: "string list"
  ci_credits :: "(string \<times> string list) list"
  ci_cover_date :: "date option"
  ci_location_list :: "string list"
  ci_number :: "string option"
  ci_story_arc_list :: "string list"
  ci_summary :: "string option"
  ci_team_list :: "string list"
  ci_title :: "string option"
  ci_web :: "string option"
  ci_pages :: "ComicPage list"

type_synonym metainfo = "Metadata \<times> MetronInfo \<times> ComicInfo"

section \<open>Comicvine service\<close>

text \<open>The answers of the Comicvine API (\<open>simyan.schemas\<close>).\<close>

record CV_Publisher =
  cvp_id :: int
  cvp_name :: string

record CV_Volume =
  cvv_id :: int
  cvv_name :: string
  cvv_start_year :: "int option"

record CV_Entry =
  cve_id :: int
  cve_name :: string

record CV_Creator =
  cvc_id :: int
  cvc_name :: string
  cvc_roles :: string

record CV_Issue =
  cvi_id :: int
  cvi_name :: "string option"
  cvi_number :: "string option"
  cvi_cover_date :: "date option"
  cvi_store_date :: "date option"
  cvi_summary :: "string option"
  cvi_site_url :: "string option"
  cvi_characters :: "CV_Entry list"
  cvi_creators :: "CV_Creator list"
  cvi_locations :: "CV_Entry list"
  cvi_story_arcs :: "CV_Entry list"
  cvi_teams :: "CV_Entry list"

subsection \<open>Python sets of resources\<close>

text \<open>
  \<open>set(xs)\<close> is represented by a list without repetitions; the order in which Python
  iterates over a set is not specified, the representation fixes one.
\<close>

definition py_set :: "'a list \<Rightarrow> 'a list" where
  "py_set xs = remdups xs"

definition py_set_add :: "'a \<Rightarrow> 'a list \<Rightarrow> 'a list" where
  "py_set_add x s = (if x \<in> set s then s else s @ [x])"

definition py_list :: "'a list \<Rightarrow> 'a list" where
  \<comment> \<open>\<open>list(s)\<close> of a set.\<close>
  "py_list s = s"

subsection \<open>Splitting role strings\<close>

definition is_role_sep :: "char \<Rightarrow> bool" where
  \<comment> \<open>The character class \<open>[~\r\n,]\<close>.\<close>
  "is_role_sep c = (c = CHR ''~'' \<or> c = CHR 0x0D \<or> c = CHR 0x0A \<or> c = CHR '','')"

function split_runs :: "(char \<Rightarrow> bool) \<Rightarrow> string \<Rightarrow> string \<Rightarrow> string list" where
  "split_runs sep acc [] = [rev acc]"
| "split_runs sep acc (c # cs) =
     (if sep c then rev acc # split_runs sep [] (dropWhile sep cs)
      else split_runs sep (c # acc) cs)"
  by pat_completeness auto
termination
  by (relation "measure (\<lambda>(sep, acc, s). length s)")
     (auto simp: le_imp_less_Suc length_dropWhile_le)

definition re_split :: "(char \<Rightarrow> bool) \<Rightarrow> string \<Rightarrow> string list" where
  \<comment> \<open>\<open>re.split(r"[...]+", s)\<close>: the pieces between maximal runs of separators.\<close>
  "re_split sep s = split_runs sep [] s"

definition is_space :: "char \<Rightarrow> bool" where
  \<comment> \<open>White space as \<open>str.strip()\<close> sees it, among the code points below 256.\<close>
  "is_space c = (of_char c \<in> set [9, 10, 11, 12, 13, 28, 29, 30, 31, 32, 133, 160 :: nat])"

definition strip :: "string \<Rightarrow> string" where
  "strip s = rev (dropWhile is_space (rev (dropWhile is_space s)))"

subsection \<open>Merging a publisher\<close>

definition add_publisher_to_metadata :: "CV_Publisher \<Rightarrow> Metadata \<Rightarrow> Metadata" where
  "add_publisher_to_metadata pub metadata =
     (let resources = py_set (pub_resources (publisher (series (issue metadata))));
          resources = py_set_add \<lparr>source = COMICVINE, value = cvp_id pub\<rparr> resources
      in metadata\<lparr>issue := (issue metadata)\<lparr>series := (series (issue metadata))
           \<lparr>publisher := (publisher (series (issue metadata)))
              \<lparr>pub_resources := py_list resources, pub_title := cvp_name pub\<rparr>\<rparr>\<rparr>\<rparr>)"

definition comic_vine_or_unset :: "MetronInfo \<Rightarrow> bool" where
  \<comment> \<open>\<open>not metron_info.id or metron_info.id.source == InformationSource.COMIC_VINE\<close>\<close>
  "comic_vine_or_unset metron_info =
     (case mi_id metron_info of None \<Rightarrow> True | Some s \<Rightarrow> mis_source s = COMIC_VINE)"

definition add_publisher_to_metron_info :: "CV_Publisher \<Rightarrow> MetronInfo \<Rightarrow> MetronInfo" where
  "add_publisher_to_metron_info pub metron_info =
     (let metron_info =
            (if comic_vine_or_unset metron_info
             then metron_info\<lparr>mi_publisher := (mi_publisher metron_info)\<lparr>mir_id := Some (cvp_id pub)\<rparr>\<rparr>
             else metron_info)
      in metron_info\<lparr>mi_publisher := (mi_publisher metron_info)\<lparr>mir_value := cvp_name pub\<rparr>\<rparr>)"

definition add_publisher_to_comic_info :: "CV_Publisher \<Rightarrow> ComicInfo \<Rightarrow> ComicInfo" where
  "add_publisher_to_comic_info pub comic_info = comic_info\<lparr>ci_publisher := Some (cvp_name pub)\<rparr>"

subsection \<open>Merging a series\<close>

definition add_series_to_metadata :: "CV_Volume \<Rightarrow> Metadata \<Rightarrow> Metadata" where
  "add_series_to_metadata vol metadata =
     (let resources = py_set (series_resources (series (issue metadata)));
          resources = py_set_add \<lparr>source = COMICVINE, value = cvv_id vol\<rparr> resources
      in metadata\<lparr>issue := (issue metadata)\<lparr>series := (series (issue metadata))
           \<lparr>series_resources := py_list resources,
            start_year := cvv_start_year vol,
            series_title := cvv_name vol\<rparr>\<rparr>\<rparr>)"

definition add_series_to_metron_info :: "CV_Volume \<Rightarrow> MetronInfo \<Rightarrow> MetronInfo" where
  "add_series_to_metron_info vol metron_info =
     (let metron_info =
            (if comic_vine_or_unset metron_info
             then metron_info\<lparr>mi_series := (mi_series metron_info)\<lparr>mise_id := Some (cvv_id vol)\<rparr>\<rparr>
             else metron_info)
      in metron_info\<lparr>mi_series := (mi_series metron_info)\<lparr>mise_name := cvv_name vol\<rparr>\<rparr>)"

definition add_series_to_comic_info :: "CV_Volume \<Rightarrow> ComicInfo \<Rightarrow> ComicInfo" where
  "add_series_to_comic_info vol comic_info = comic_info\<lparr>ci_series := Some (cvv_name vol)\<rparr>"

subsection \<open>Merging an issue\<close>

definition cv_titled :: "CV_Entry \<Rightarrow> TitledResource" where
  \<comment> \<open>\<open>TitledResource(title=x.name, resources=[Resource(source=Source.COMICVINE, value=x.id)])\<close>\<close>
  "cv_titled x = \<lparr>tr_title = cve_name x, tr_resources = [\<lparr>source = COMICVINE, value = cve_id x\<rparr>]\<rparr>"

definition cv_credit :: "CV_Creator \<Rightarrow> Credit" where
  "cv_credit x =
     \<lparr>creator = \<lparr>tr_title = cvc_name x, tr_resources = [\<lparr>source = COMICVINE, value = cvc_id x\<rparr>]\<rparr>,
      roles = map (\<lambda>r. \<lparr>tr_title = strip r, tr_resources = []\<rparr>) (re_split is_role_sep (cvc_roles x))\<rparr>"

definition add_issue_to_metadata :: "CV_Issue \<Rightarrow> Metadata \<Rightarrow> Metadata" where
  "add_issue_to_metadata iss metadata =
     (let resources = py_set (issue_resources (issue metadata));
          resources = py_set_add \<lparr>source = COMICVINE, value = cvi_id iss\<rparr> resources
      in metadata\<lparr>issue := (issue metadata)
           \<lparr>issue_resources := py_list resources,
            characters := map cv_titled (cvi_characters iss),
            cover_date := cvi_cover_date iss,
            credits := map cv_credit (cvi_creators iss),
            locations := map cv_titled (cvi_locations iss),
            number := cvi_number iss,
            store_date := cvi_store_date iss,
            story_arcs := map (\<lambda>x. \<lparr>arc_title = cve_name x,
                                     arc_resources = [\<lparr>source = COMICVINE, value = cve_id x\<rparr>]\<rparr>)
                              (cvi_story_arcs iss),
            summary := cvi_summary iss,
            teams := map cv_titled (cvi_teams iss),
            issue_title := cvi_name iss\<rparr>\<rparr>)"

definition mi_resource :: "CV_Entry \<Rightarrow> MI_Resource" where
  \<comment> \<open>\<open>Resource(id=x.id, value=x.name)\<close>\<close>
  "mi_resource x = \<lparr>mir_id = Some (cve_id x), mir_value = cve_name x\<rparr>"

definition mi_credit :: "(string \<Rightarrow> Role option) \<Rightarrow> CV_Creator \<Rightarrow> MI_Credit" where
  \<comment> \<open>\<open>role_load\<close> is \<open>Role.load\<close>; \<open>None\<close> stands for its \<open>ValueError\<close>.\<close>
  "mi_credit role_load x =
     \<lparr>mic_creator = \<lparr>mir_id = Some (cvc_id x), mir_value = cvc_name x\<rparr>,
      mic_roles = map (\<lambda>r. case role_load (strip r) of
                               Some role \<Rightarrow> \<lparr>mirr_value = role\<rparr>
                             | None \<Rightarrow> \<lparr>mirr_value = OTHER\<rparr>)
                      (re_split is_role_sep (cvc_roles x))\<rparr>"

definition add_issue_to_metron_info ::
  "(string \<Rightarrow> Role option) \<Rightarrow> date \<Rightarrow> CV_Issue \<Rightarrow> MetronInfo \<Rightarrow> MetronInfo" where
  \<comment> \<open>\<open>asked\<close> is the date \<open>DatePrompt.ask("Cover Date", default=date.today())\<close> returns.\<close>
  "add_issue_to_metron_info role_load asked iss metron_info =
     (let metron_info = metron_info
            \<lparr>mi_arcs := map (\<lambda>x. \<lparr>mia_id = Some (cve_id x), mia_name = cve_name x\<rparr>) (cvi_story_arcs iss),
             mi_characters := map mi_resource (cvi_characters iss),
             mi_cover_date :=
               PyTuple [case cvi_cover_date iss of Some d \<Rightarrow> PyDate d | None \<Rightarrow> PyDate asked],
             mi_credits := map (mi_credit role_load) (cvi_creators iss)\<rparr>;
          metron_info =
            (if comic_vine_or_unset metron_info
             then metron_info\<lparr>mi_id := Some \<lparr>mis_source = COMIC_VINE, mis_value = cvi_id iss\<rparr>\<rparr>
             else metron_info)
      in metron_info
           \<lparr>mi_locations := map mi_resource (cvi_locations iss),
            mi_number := cvi_number iss,
            mi_store_date := cvi_store_date iss,
            mi_summary := cvi_summary iss,
            mi_teams := map mi_resource (cvi_teams iss),
            mi_collection_title := cvi_name iss,
            mi_url := cvi_site_url iss\<rparr>)"

definition dict_set :: "'k \<Rightarrow> 'v \<Rightarrow> ('k \<times> 'v) list \<Rightarrow> ('k \<times> 'v) list" where
  \<comment> \<open>\<open>d[k] = v\<close> on a dict kept in insertion order.\<close>
  "dict_set k v d =
     (if k \<in> set (map fst d) then map (\<lambda>(k', v'). if k' = k then (k', v) else (k', v')) d
      else d @ [(k, v)])"

definition add_issue_to_comic_info :: "CV_Issue \<Rightarrow> ComicInfo \<Rightarrow> ComicInfo" where
  "add_issue_to_comic_info iss comic_info =
     comic_info
       \<lparr>ci_character_list := map cve_name (cvi_characters iss),
        ci_credits := foldl (\<lambda>d x. dict_set (cvc_name x)
                                     (map strip (re_split is_role_sep (cvc_roles x))) d)
                            [] (cvi_creators iss),
        ci_cover_date := cvi_cover_date iss,
        ci_location_list := map cve_name (cvi_locations iss),
        ci_number := cvi_number iss,
        ci_story_arc_list := map cve_name (cvi_story_arcs iss),
        ci_summary := cvi_summary iss,
        ci_team_list := map cve_name (cvi_teams iss),
        ci_title := cvi_name iss,
        ci_web := cvi_site_url iss\<rparr>"

subsection \<open>The \<open>Comicvine\<close> class\<close>

text \<open>
  The session's answers are parameters: \<open>None\<close> from a \<open>get_*\<close> stands for the
  \<open>ServiceError\<close> the method catches. The three interactive searches
  (\<open>_search_publishers\<close>, \<open>_search_series\<close>, \<open>_search_issues\<close>) are given by the identifier
  they end with, \<open>None\<close> when the operator gives up or the service fails.
\<close>

record CV_Session =
  get_publisher :: "int \<Rightarrow> CV_Publisher option"
  get_volume :: "int \<Rightarrow> CV_Volume option"
  get_issue :: "int \<Rightarrow> CV_Issue option"
  search_publishers :: "string option \<Rightarrow> int option"
  search_series :: "int \<Rightarrow> string option \<Rightarrow> int option"
  search_issues :: "int \<Rightarrow> string option \<Rightarrow> int option"
  role_load :: "string \<Rightarrow> Role option"
  asked_cover_date :: date

definition py_or :: "int option \<Rightarrow> int option \<Rightarrow> int option" where
  \<comment> \<open>\<open>a or b\<close> on optional integers.\<close>
  "py_or a b = (if truthy_int a then a else b)"

definition first_comicvine :: "Resource list \<Rightarrow> int option" where
  \<comment> \<open>\<open>next((x.value for x in resources if x.source == Source.COMICVINE), None)\<close>\<close>
  "first_comicvine resources =
     (case List.find (\<lambda>x. source x = COMICVINE) resources of
        None \<Rightarrow> None
      | Some x \<Rightarrow> Some (value x))"

definition from_comic_vine :: "MetronInfo \<Rightarrow> bool" where
  \<comment> \<open>\<open>metron_info.id and metron_info.id.source == InformationSource.COMIC_VINE\<close>\<close>
  "from_comic_vine metron_info =
     (case mi_id metron_info of None \<Rightarrow> False | Some s \<Rightarrow> mis_source s = COMIC_VINE)"

definition get_publisher_id :: "CV_Session \<Rightarrow> Metadata \<Rightarrow> MetronInfo \<Rightarrow> int option" where
  "get_publisher_id cv metadata metron_info =
     (let publisher_id =
            py_or (first_comicvine (pub_resources (publisher (series (issue metadata)))))
                  (if from_comic_vine metron_info then mir_id (mi_publisher metron_info) else None)
      in py_or publisher_id
               (search_publishers cv (Some (pub_title (publisher (series (issue metadata)))))))"

definition fetch_publisher :: "CV_Session \<Rightarrow> metainfo \<Rightarrow> CV_Publisher option \<times> metainfo" where
  "fetch_publisher cv m =
     (case m of (metadata, metron_info, comic_info) \<Rightarrow>
        let publisher_id = get_publisher_id cv metadata metron_info in
        if \<not> truthy_int publisher_id then (None, m)
        else (case get_publisher cv (the publisher_id) of
                None \<Rightarrow> (None, m)
              | Some pub \<Rightarrow>
                  (Some pub,
                   (add_publisher_to_metadata pub metadata,
                    add_publisher_to_metron_info pub metron_info,
                    add_publisher_to_comic_info pub comic_info))))"

definition get_series_id :: "CV_Session \<Rightarrow> int \<Rightarrow> Metadata \<Rightarrow> MetronInfo \<Rightarrow> int option" where
  "get_series_id cv publisher_id metadata metron_info =
     (let series_id =
            py_or (first_comicvine (series_resources (series (issue metadata))))
                  (if from_comic_vine metron_info then mise_id (mi_series metron_info) else None)
      in py_or series_id
               (search_series cv publisher_id (Some (series_title (series (issue metadata))))))"

definition fetch_series :: "CV_Session \<Rightarrow> metainfo \<Rightarrow> int \<Rightarrow> CV_Volume option \<times> metainfo" where
  "fetch_series cv m publisher_id =
     (case m of (metadata, metron_info, comic_info) \<Rightarrow>
        let series_id = get_series_id cv publisher_id metadata metron_info in
        if \<not> truthy_int series_id then (None, m)
        else (case get_volume cv (the series_id) of
                None \<Rightarrow> (None, m)
              | Some vol \<Rightarrow>
                  (Some vol,
                   (add_series_to_metadata vol metadata,
                    add_series_to_metron_info vol metron_info,
                    add_series_to_comic_info vol comic_info))))"

definition get_issue_id :: "CV_Session \<Rightarrow> int \<Rightarrow> Metadata \<Rightarrow> MetronInfo \<Rightarrow> int option" where
  "get_issue_id cv series_id metadata metron_info =
     (let issue_id =
            py_or (first_comicvine (issue_resources (issue metadata)))
                  (if from_comic_vine metron_info
                   then map_option mis_value (mi_id metron_info) else None)
      in py_or issue_id (search_issues cv series_id (number (issue metadata))))"

definition fetch_issue :: "CV_Session \<Rightarrow> metainfo \<Rightarrow> int \<Rightarrow> CV_Issue option \<times> metainfo" where
  "fetch_issue cv m series_id =
     (case m of (metadata, metron_info, comic_info) \<Rightarrow>
        let issue_id = get_issue_id cv series_id metadata metron_info in
        if \<not> truthy_int issue_id then (None, m)
        else (case get_issue cv (the issue_id) of
                None \<Rightarrow> (None, m)
              | Some iss \<Rightarrow>
                  (Some iss,
                   (add_issue_to_metadata iss metadata,
                    add_issue_to_metron_info (role_load cv) (asked_cover_date cv) iss metron_info,
                    add_issue_to_comic_info iss comic_info))))"

definition fetch :: "CV_Session \<Rightarrow> metainfo \<Rightarrow> bool \<times> metainfo" where
  \<comment> \<open>\<open>Comicvine.fetch\<close>: the objects are mutated in place, so the changed triple is returned
      with the verdict.\<close>
  "fetch cv m =
     (case fetch_publisher cv m of
        (None, m1) \<Rightarrow> (False, m1)
      | (Some pub, m1) \<Rightarrow>
          (case fetch_series cv m1 (cvp_id pub) of
             (None, m2) \<Rightarrow> (False, m2)
           | (Some vol, m2) \<Rightarrow>
               (case fetch_issue cv m2 (cvv_id vol) of
                  (None, m3) \<Rightarrow> (False, m3)
                | (Some iss, m3) \<Rightarrow> (True, m3))))"

section \<open>Enrichment\<close>

datatype level = INFO | WARNING | ERROR | CRITICAL

text \<open>
  Modelled from the spec: \<open>perdoo.settings\<close> is not among the sources. The settings hold
  the collection folder, the output options (target container format, which metadata
  files to write) and, per service, the credentials that \<open>fetch_from_services\<close> tests.
\<close>

datatype OutputFormat = CB7 | CBT | CBZ

text \<open>
  What the pipeline does to the outside: log lines, console output and file operations,
  in the order they happen.
\<close>

datatype effect =
    Log level string
  | ConsoleRule string
  | Convert path OutputFormat
  | MakeTemp path
  | RemoveTemp path
  | Rename string string
  | WriteMetadata path Metadata
  | WriteMetronInfo path MetronInfo
  | WriteComicInfo path ComicInfo
  | Unlink path
  | Move path path
  | Mkdir path

record MarvelSettings =
  public_key :: "string option"
  private_key :: "string option"

record MetronSettings =
  username :: "string option"
  password :: "string option"

record ComicvineSettings =
  api_key :: "string option"

record LeagueSettings =
  client_id :: "string option"
  client_secret :: "string option"

record Output =
  create_comic_info :: bool
  create_metadata :: bool
  create_metron_info :: bool
  output_format :: OutputFormat

record Settings =
  collection_folder :: path
  comicvine :: "ComicvineSettings option"
  league_of_comic_geeks :: "LeagueSettings option"
  marvel :: "MarvelSettings option"
  metron :: "MetronSettings option"
  "output" :: Output

type_synonym service = "metainfo \<Rightarrow> bool \<times> metainfo"

text \<open>
  The \<open>fetch\<close> methods of \<open>Marvel\<close>, \<open>Metron\<close> and \<open>League\<close> are parameters: each takes the
  three objects and returns its verdict with the objects as it left them.
\<close>

record Services =
  marvel_fetch :: service
  metron_fetch :: service
  league_fetch :: service
  comicvine_session :: CV_Session

fun any_fetch :: "service option list \<Rightarrow> metainfo \<Rightarrow> bool \<times> metainfo" where
  "any_fetch [] m = (False, m)"
| "any_fetch (None # rest) m = any_fetch rest m"
| "any_fetch (Some f # rest) m =
     (if fst (f m) then (True, snd (f m)) else any_fetch rest (snd (f m)))"

definition configured_services :: "Services \<Rightarrow> Settings \<Rightarrow> service option list" where
  \<comment> \<open>The tuple \<open>(marvel, metron, comicvine, league)\<close> of \<open>fetch_from_services\<close>: a service
      is there when its settings hold every credential, \<open>None\<close> otherwise.\<close>
  "configured_services svc settings =
     (let marvel' =
            (case marvel settings of
               None \<Rightarrow> None
             | Some s \<Rightarrow> if truthy_str (public_key s) \<and> truthy_str (private_key s)
                          then Some (marvel_fetch svc) else None);
          metron' =
            (case metron settings of
               None \<Rightarrow> None
             | Some s \<Rightarrow> if truthy_str (username s) \<and> truthy_str (password s)
                          then Some (metron_fetch svc) else None);
          comicvine' =
            (case comicvine settings of
               None \<Rightarrow> None
             | Some s \<Rightarrow> if truthy_str (api_key s)
                          then Some (fetch (comicvine_session svc)) else None);
          league' =
            (case league_of_comic_geeks settings of
               None \<Rightarrow> None
             | Some s \<Rightarrow> if truthy_str (client_id s) \<and> truthy_str (client_secret s)
                          then Some (league_fetch svc) else None)
      in [marvel', metron', comicvine', league'])"

definition fetch_from_services ::
  "Services \<Rightarrow> Settings \<Rightarrow> metainfo \<Rightarrow> effect list \<times> metainfo" where
  "fetch_from_services svc settings metainfo =
     (let configured = configured_services svc settings
      in if list_all Option.is_none configured
         then ([Log WARNING ''No external services configured''], metainfo)
         else (case any_fetch configured metainfo of
                 (success, metainfo') \<Rightarrow>
                   (if \<not> success
                    then [Log WARNING ''Unable to fetch information fron any service'']
                    else [],
                    metainfo')))"

subsection \<open>Trying services in order, as the specification words it\<close>

text \<open>
  Two definitions that follow the specification, to be compared with \<open>any_fetch\<close>:
  \<open>all_fail\<close> says that every configured service of a list fails when the services are
  tried in order, each on the objects as the services before it left them, and
  \<open>after_services\<close> gives the objects after all of them have been tried.
\<close>

fun all_fail :: "service option list \<Rightarrow> metainfo \<Rightarrow> bool" where
  "all_fail [] m = True"
| "all_fail (None # rest) m = all_fail rest m"
| "all_fail (Some f # rest) m = (\<not> fst (f m) \<and> all_fail rest (snd (f m)))"

fun after_services :: "service option list \<Rightarrow> metainfo \<Rightarrow> metainfo" where
  "after_services [] m = m"
| "after_services (None # rest) m = after_services rest m"
| "after_services (Some f # rest) m = after_services rest (snd (f m))"

definition harmless_on_failure :: "service \<Rightarrow> bool" where
  \<comment> \<open>A service that leaves the three objects as they were whenever it fails.\<close>
  "harmless_on_failure f = (\<forall>m. \<not> fst (f m) \<longrightarrow> snd (f m) = m)"

section \<open>Archives\<close>

type_synonym bytes = string

datatype ArchiveKind = CBZArchive | CBRArchive | CBTArchive | CB7Archive

record Archive =
  kind :: ArchiveKind
  archive_path :: path

datatype error = NotImplementedError string | TypeError string | FileNotFoundError string

text \<open>
  \<open>is_zipfile\<close>, \<open>is_rarfile\<close>, \<open>is_tarfile\<close> and \<open>is_7zfile\<close> are library functions that
  open the file and test its contents; they are predicates on the bytes of the file, and
  \<open>fs\<close> gives the bytes stored under a path.
\<close>

record Signatures =
  is_zipfile :: "bytes \<Rightarrow> bool"
  is_rarfile :: "bytes \<Rightarrow> bool"
  is_tarfile :: "bytes \<Rightarrow> bool"
  is_7zfile :: "bytes \<Rightarrow> bool"

definition truthy_callable :: "('a \<Rightarrow> 'b) \<Rightarrow> bool" where
  \<comment> \<open>The truth value of a function object that is named but not called.\<close>
  "truthy_callable f = True"

definition get_archive :: "bool \<Rightarrow> Signatures \<Rightarrow> (path \<Rightarrow> bytes) \<Rightarrow> path \<Rightarrow> error + Archive" where
  \<comment> \<open>\<open>py7zr_loaded\<close> is the module flag set by the guarded import of \<open>py7zr\<close>. The last
      test reads \<open>py7zr_loaded and is_7zfile\<close>: the function is named, not applied.\<close>
  "get_archive py7zr_loaded sig fs p =
     (if is_zipfile sig (fs p) then Inr \<lparr>kind = CBZArchive, archive_path = p\<rparr>
      else if is_rarfile sig (fs p) then Inr \<lparr>kind = CBRArchive, archive_path = p\<rparr>
      else if is_tarfile sig (fs p) then Inr \<lparr>kind = CBTArchive, archive_path = p\<rparr>
      else if py7zr_loaded \<and> truthy_callable (is_7zfile sig)
      then Inr \<lparr>kind = CB7Archive, archive_path = p\<rparr>
      else Inl (NotImplementedError (path_name p @ '' is an unsupported archive'')))"

text \<open>
  A directory is the list of its files, name and contents. The methods of the variants
  other than \<open>CBRArchive\<close> are parameters (\<open>var_*\<close>), each giving what it logs and what it
  returns; those of \<open>CBRArchive\<close> follow \<open>archives/cbr.py\<close> over the answers of \<open>RarFile\<close>
  (\<open>None\<close>, or \<open>False\<close>: it raised \<open>RarExecError\<close>), and \<open>LOGGER.exception\<close> writes a record
  of level \<open>ERROR\<close>.
\<close>

type_synonym dir = "(string \<times> bytes) list"

record ArchiveLib =
  var_list_filenames :: "Archive \<Rightarrow> effect list \<times> string list"
  var_read_file :: "Archive \<Rightarrow> string \<Rightarrow> effect list \<times> bytes"
  var_extract_files :: "Archive \<Rightarrow> path \<Rightarrow> effect list \<times> bool"
  var_archive_files :: "Archive \<Rightarrow> path \<Rightarrow> string \<Rightarrow> effect list \<times> path option"
  rar_namelist :: "path \<Rightarrow> string list option"
  rar_read :: "path \<Rightarrow> string \<Rightarrow> bytes option"
  rar_extractall :: "path \<Rightarrow> path \<Rightarrow> bool"
  extracted :: "Archive \<Rightarrow> dir"

definition list_filenames :: "ArchiveLib \<Rightarrow> Archive \<Rightarrow> effect list \<times> string list" where
  "list_filenames lib a =
     (if kind a = CBRArchive
      then (case rar_namelist lib (archive_path a) of
              Some names \<Rightarrow> ([], names)
            | None \<Rightarrow> ([Log ERROR (''Unable to read '' @ path_name (archive_path a))], []))
      else var_list_filenames lib a)"

definition read_file :: "ArchiveLib \<Rightarrow> Archive \<Rightarrow> string \<Rightarrow> effect list \<times> bytes" where
  "read_file lib a filename =
     (if kind a = CBRArchive
      then (case rar_read lib (archive_path a) filename of
              Some b \<Rightarrow> ([], b)
            | None \<Rightarrow> ([Log ERROR (''Unable to read '' @ path_name (archive_path a))], []))
      else var_read_file lib a filename)"

definition extract_files :: "ArchiveLib \<Rightarrow> Archive \<Rightarrow> path \<Rightarrow> effect list \<times> bool" where
  "extract_files lib a destination =
     (if kind a = CBRArchive
      then (if rar_extractall lib (archive_path a) destination then ([], True)
            else ([Log ERROR []], False))
      else var_extract_files lib a destination)"

definition archive_files ::
  "ArchiveLib \<Rightarrow> Archive \<Rightarrow> path \<Rightarrow> string \<Rightarrow> effect list \<times> (error + path option)" where
  \<comment> \<open>As \<open>start\<close> calls it, \<open>archive.archive_files(src=..., filename=...)\<close>;
      \<open>CBRArchive.archive_files\<close> has no parameter of that name.\<close>
  "archive_files lib a src filename =
     (if kind a = CBRArchive
      then ([], Inl (TypeError (''CBRArchive.archive_files() got an unexpected keyword argument ''
                                @ [CHR 0x27] @ ''filename'' @ [CHR 0x27])))
      else (case var_archive_files lib a src filename of (effs, r) \<Rightarrow> (effs, Inr r)))"

section \<open>Reconciliation\<close>

text \<open>
  The parsers and converters of \<open>perdoo.models\<close> and \<open>perdoo.utils\<close> are parameters. A
  parser returns \<open>None\<close> for the \<open>ValidationError\<close> that \<open>read_archive\<close> catches.
\<close>

record Models =
  metadata_from_bytes :: "bytes \<Rightarrow> Metadata option"
  metron_info_from_bytes :: "bytes \<Rightarrow> MetronInfo option"
  comic_info_from_bytes :: "bytes \<Rightarrow> ComicInfo option"
  metron_to_metadata :: "MetronInfo \<Rightarrow> Metadata"
  comic_to_metadata :: "ComicInfo \<Rightarrow> Metadata"
  create_metadata_from :: "Archive \<Rightarrow> Metadata"
  metadata_to_metron :: "Metadata \<Rightarrow> MetronInfo"
  metadata_to_comic :: "Metadata \<Rightarrow> ComicInfo"
  metadata_page_from_path :: "dir \<Rightarrow> string \<Rightarrow> nat \<Rightarrow> bool \<Rightarrow> Page option \<Rightarrow> Page"
  metron_page_from_path :: "dir \<Rightarrow> string \<Rightarrow> nat \<Rightarrow> bool \<Rightarrow> MetronPage option \<Rightarrow> MetronPage"
  comic_page_from_path :: "dir \<Rightarrow> string \<Rightarrow> nat \<Rightarrow> bool \<Rightarrow> ComicPage option \<Rightarrow> ComicPage"

definition read_entry ::
  "ArchiveLib \<Rightarrow> Archive \<Rightarrow> string list \<Rightarrow> (bytes \<Rightarrow> 'a option) \<Rightarrow> string \<Rightarrow>
   effect list \<times> 'a option" where
  \<comment> \<open>One \<open>try\<close> block of \<open>read_archive\<close>, for the entry called \<open>name\<close> (without \<open>.xml\<close>).\<close>
  "read_entry lib archive filenames from_bytes name =
     (let content =
            (if (''/'' @ name @ ''.xml'') \<in> set filenames
             then Some (read_file lib archive (''/'' @ name @ ''.xml''))
             else if (name @ ''.xml'') \<in> set filenames
             then Some (read_file lib archive (name @ ''.xml''))
             else None)
      in case content of
           None \<Rightarrow> ([], None)
         | Some (read_log, b) \<Rightarrow>
             (case from_bytes b of
                None \<Rightarrow>
                  (read_log @ [Log ERROR (path_name (archive_path archive)
                                          @ '' contains an invalid '' @ name @ '' file'')],
                   None)
              | Some v \<Rightarrow> (read_log, Some v)))"

definition read_archive ::
  "ArchiveLib \<Rightarrow> Models \<Rightarrow> Archive \<Rightarrow> effect list \<times> metainfo" where
  "read_archive lib mdl archive =
     (let (log0, filenames) = list_filenames lib archive;
          (log1, metadata) = read_entry lib archive filenames (metadata_from_bytes mdl) ''Metadata'';
          (log2, metron_info) = read_entry lib archive filenames (metron_info_from_bytes mdl) ''MetronInfo'';
          (log3, comic_info) = read_entry lib archive filenames (comic_info_from_bytes mdl) ''ComicInfo'';
          metadata =
            (case metadata of
               Some m \<Rightarrow> m
             | None \<Rightarrow>
                 (case metron_info of
                    Some mi \<Rightarrow> metron_to_metadata mdl mi
                  | None \<Rightarrow>
                      (case comic_info of
                         Some ci \<Rightarrow> comic_to_metadata mdl ci
                       | None \<Rightarrow> create_metadata_from mdl archive)));
          metron_info =
            (case metron_info of Some mi \<Rightarrow> mi | None \<Rightarrow> metadata_to_metron mdl metadata);
          comic_info =
            (case comic_info of Some ci \<Rightarrow> ci | None \<Rightarrow> metadata_to_comic mdl metadata)
      in (log0 @ log1 @ log2 @ log3, (metadata, metron_info, comic_info)))"

definition parsed_entry ::
  "ArchiveLib \<Rightarrow> Archive \<Rightarrow> (bytes \<Rightarrow> 'a option) \<Rightarrow> string \<Rightarrow> 'a option" where
  \<comment> \<open>As the specification words it: what the metadata file \<open>name\<close> of the archive parses
      to, \<open>None\<close> when the archive has no such entry or the entry is invalid. The entry is
      looked for with a leading separator first, then without.\<close>
  "parsed_entry al archive from_bytes name =
     (case List.find (\<lambda>entry. entry \<in> set (snd (list_filenames al archive)))
             [''/'' @ name @ ''.xml'', name @ ''.xml''] of
        None \<Rightarrow> None
      | Some entry \<Rightarrow> from_bytes (snd (read_file al archive entry)))"

section \<open>Page synchronizer\<close>

text \<open>
  \<open>sanitize\<close> and \<open>list_files\<close> come from \<open>perdoo.utils\<close>: \<open>list_images\<close> is
  \<open>list_files(folder, *IMAGE_EXTENSIONS)\<close>, the names of a directory's image files in
  listing order; \<open>list_archives\<close> and \<open>list_convertible\<close> are the two listings of the
  collection folder, by the target extension and by every other archive extension.
\<close>

record Utils =
  sanitize :: "string \<Rightarrow> string"
  list_images :: "dir \<Rightarrow> string list"
  list_archives :: "path \<Rightarrow> OutputFormat \<Rightarrow> path list"
  list_convertible :: "path \<Rightarrow> OutputFormat \<Rightarrow> path list"

definition rename_file :: "string \<Rightarrow> string \<Rightarrow> dir \<Rightarrow> error + dir" where
  \<comment> \<open>\<open>Path.rename\<close> inside one directory: the target replaces a file of that name.\<close>
  "rename_file old new d =
     (case map_of d old of
        None \<Rightarrow> Inl (FileNotFoundError old)
      | Some content \<Rightarrow>
          if old = new then Inr d
          else Inr (filter (\<lambda>(n, c). n \<noteq> old \<and> n \<noteq> new) d @ [(new, content)]))"

fun rename_loop ::
  "string \<Rightarrow> nat \<Rightarrow> nat \<Rightarrow> string list \<Rightarrow> dir \<Rightarrow> effect list \<times> (error + dir)" where
  "rename_loop filename pad_count index [] d = ([], Inr d)"
| "rename_loop filename pad_count index (img_file # rest) d =
     (let new_filename =
            filename @ ''_'' @ zfill pad_count (str_nat index) @ path_suffix img_file
      in if img_file \<noteq> new_filename
         then (case rename_file img_file
                     (filename @ ''-'' @ zfill pad_count (str_nat index) @ path_suffix img_file) d of
                 Inl e \<Rightarrow>
                   ([Log INFO (''Renamed '' @ img_file @ '' to '' @ new_filename)], Inl e)
               | Inr d' \<Rightarrow>
                   (case rename_loop filename pad_count (Suc index) rest d' of
                      (effs, r) \<Rightarrow>
                        (Log INFO (''Renamed '' @ img_file @ '' to '' @ new_filename)
                         # Rename img_file
                             (filename @ ''-'' @ zfill pad_count (str_nat index) @ path_suffix img_file)
                         # effs, r)))
         else rename_loop filename pad_count (Suc index) rest d)"

definition rename_images :: "Utils \<Rightarrow> dir \<Rightarrow> string \<Rightarrow> effect list \<times> (error + dir)" where
  "rename_images utils folder filename =
     (let image_list = list_images utils folder;
          pad_count = length (str_nat (length image_list))
      in rename_loop filename pad_count 0 image_list folder)"

definition build_pages ::
  "(dir \<Rightarrow> string \<Rightarrow> nat \<Rightarrow> bool \<Rightarrow> 'p option \<Rightarrow> 'p) \<Rightarrow> ('p \<Rightarrow> nat) \<Rightarrow> dir \<Rightarrow>
   string list \<Rightarrow> 'p list \<Rightarrow> 'p list" where
  \<comment> \<open>One of the three page collections of \<open>process_pages\<close>: a set filled page by page,
      then \<open>sorted\<close>. Modelled from the spec: pages are ordered by their index.\<close>
  "build_pages from_path index_of folder image_list old_pages =
     sort_key index_of
       (foldl (\<lambda>pages (index, img_file).
                 py_set_add
                   (from_path folder img_file index (int index = int (length image_list) - 1)
                      (List.find (\<lambda>x. index_of x = index) old_pages))
                   pages)
          [] (enumerate 0 image_list))"

definition process_pages ::
  "Utils \<Rightarrow> Models \<Rightarrow> dir \<Rightarrow> metainfo \<Rightarrow> string \<Rightarrow> effect list \<times> (error + dir \<times> metainfo)" where
  "process_pages utils mdl folder m filename =
     (case m of (metadata, metron_info, comic_info) \<Rightarrow>
        (case rename_images utils folder filename of
           (effs, Inl e) \<Rightarrow> (effs, Inl e)
         | (effs, Inr folder') \<Rightarrow>
             let image_list = list_images utils folder' in
             (effs,
              Inr (folder',
                   (metadata\<lparr>pages := build_pages (metadata_page_from_path mdl) page_index
                                         folder' image_list (pages metadata)\<rparr>,
                    metron_info\<lparr>mi_pages := build_pages (metron_page_from_path mdl) mp_image
                                               folder' image_list (mi_pages metron_info)\<rparr>,
                    comic_info\<lparr>ci_pages := build_pages (comic_page_from_path mdl) cp_image
                                              folder' image_list (ci_pages comic_info)\<rparr>)))))"

section \<open>Pipeline orchestrator\<close>

record Env =
  utils :: Utils
  today :: date
  default_tool :: Tool
  py7zr_loaded :: bool
  signatures :: Signatures
  fs :: "path \<Rightarrow> bytes"
  lib :: ArchiveLib
  models :: Models
  services :: Services
  mkdtemp :: "string \<Rightarrow> path"

definition format_value :: "OutputFormat \<Rightarrow> string" where
  "format_value f = (case f of CB7 \<Rightarrow> ''cb7'' | CBT \<Rightarrow> ''cbt'' | CBZ \<Rightarrow> ''cbz'')"

definition format_name :: "OutputFormat \<Rightarrow> string" where
  "format_name f = (case f of CB7 \<Rightarrow> ''CB7'' | CBT \<Rightarrow> ''CBT'' | CBZ \<Rightarrow> ''CBZ'')"

text \<open>How one pass through the body of the loop of \<open>start\<close> ends.\<close>

datatype flow = Continue | Return | Raise error

fun convert_collection :: "Env \<Rightarrow> OutputFormat \<Rightarrow> path list \<Rightarrow> effect list \<times> error option" where
  \<comment> \<open>The loop of \<open>convert_collection\<close> over the files to convert.\<close>
  "convert_collection env out [] = ([], None)"
| "convert_collection env out (file # files) =
     (case get_archive (py7zr_loaded env) (signatures env) (fs env) file of
        Inl e \<Rightarrow>
          ([Log INFO (''Converting '' @ path_name file @ '' to '' @ format_name out @ '' format'')],
           Some e)
      | Inr archive \<Rightarrow>
          (case convert_collection env out files of
             (effs, r) \<Rightarrow>
               (Log INFO (''Converting '' @ path_name file @ '' to '' @ format_name out @ '' format'')
                # Convert file out # effs, r)))"

definition write_files :: "Output \<Rightarrow> path \<Rightarrow> metainfo \<Rightarrow> effect list" where
  "write_files out temp_folder m =
     (case m of (metadata, metron_info, comic_info) \<Rightarrow>
        (if create_metadata out
         then [WriteMetadata (path_div temp_folder ''Metadata.xml'') metadata] else [])
        @ (if create_metron_info out
           then [WriteMetronInfo (path_div temp_folder ''MetronInfo.xml'') metron_info] else [])
        @ (if create_comic_info out
           then [WriteComicInfo (path_div temp_folder ''ComicInfo.xml'') comic_info] else []))"

fun path_str :: "path \<Rightarrow> string" where
  \<comment> \<open>\<open>str\<close> of a relative path: its parts joined by the separator, \<open>.\<close> when there is none.\<close>
  "path_str [] = ''.''"
| "path_str [s] = s"
| "path_str (s # t # rest) = s @ ''/'' @ path_str (t # rest)"

definition organize :: "path \<Rightarrow> path \<Rightarrow> path \<Rightarrow> effect list" where
  \<comment> \<open>The last statement of the loop body: both paths lie under \<open>root\<close>.\<close>
  "organize root file new_file =
     (if drop (length root) file \<noteq> drop (length root) new_file
      then [Log INFO (''Organizing comic, moving file to ''
                      @ path_str (drop (length root) new_file)),
            Mkdir (butlast new_file), Move file new_file]
      else [])"

definition process_archive ::
  "Env \<Rightarrow> Settings \<Rightarrow> path \<Rightarrow> Archive \<Rightarrow> metainfo \<Rightarrow> effect list \<times> flow" where
  \<comment> \<open>The loop body of \<open>start\<close> after the freshness gate.\<close>
  "process_archive env settings file archive m =
     (case fetch_from_services (services env) settings m of
        (fetch_log, (metadata, metron_info, comic_info)) \<Rightarrow>
          let begin_effs =
                [ConsoleRule (path_stem (path_name file)),
                 Log INFO (''Processing '' @ path_name file)] @ fetch_log;
              new_file =
                generate_filename (sanitize (utils env)) (collection_folder settings)
                  (format_value (output_format (output settings))) metadata;
              temp_folder = mkdtemp env (path_stem (path_name new_file) @ ''_'')
          in case extract_files (lib env) archive temp_folder of
               (extract_log, extracted_ok) \<Rightarrow>
             if \<not> extracted_ok
             then (begin_effs @ [MakeTemp temp_folder] @ extract_log @ [RemoveTemp temp_folder],
                   Return)
             else
               (case process_pages (utils env) (models env) (extracted (lib env) archive)
                       (metadata, metron_info, comic_info) (path_stem (path_name new_file)) of
                  (page_effs, Inl e) \<Rightarrow>
                    (begin_effs @ [MakeTemp temp_folder] @ extract_log @ page_effs
                     @ [RemoveTemp temp_folder],
                     Raise e)
                | (page_effs, Inr (folder, (metadata, metron_info, comic_info))) \<Rightarrow>
                    let metadata = metadata\<lparr>meta := \<lparr>meta_date = today env, tool = default_tool env\<rparr>\<rparr>;
                        written =
                          write_files (output settings) temp_folder
                            (metadata, metron_info, comic_info);
                        effs = begin_effs @ [MakeTemp temp_folder] @ extract_log @ page_effs
                               @ written
                    in (case archive_files (lib env) archive temp_folder
                               (path_stem (path_name (archive_path archive))) of
                          (archive_log, Inl e) \<Rightarrow>
                            (effs @ archive_log @ [RemoveTemp temp_folder], Raise e)
                        | (archive_log, Inr None) \<Rightarrow>
                            (effs @ archive_log @ [Log CRITICAL ''Unable to re-archive images'',
                                     RemoveTemp temp_folder], Continue)
                        | (archive_log, Inr (Some archive_file)) \<Rightarrow>
                            (effs @ archive_log @ [Unlink (archive_path archive),
                                     Move archive_file (archive_path archive),
                                     RemoveTemp temp_folder]
                             @ organize (collection_folder settings) file new_file,
                             Continue))))"

definition start_body :: "Env \<Rightarrow> Settings \<Rightarrow> bool \<Rightarrow> path \<Rightarrow> effect list \<times> flow" where
  \<comment> \<open>One pass through the loop body of \<open>start\<close>, for \<open>file\<close>.\<close>
  "start_body env settings force file =
     (case get_archive (py7zr_loaded env) (signatures env) (fs env) file of
        Inl e \<Rightarrow> ([], Raise e)
      | Inr archive \<Rightarrow>
          (case read_archive (lib env) (models env) archive of
             (read_log, (metadata, metron_info, comic_info)) \<Rightarrow>
               (case (if \<not> force
                      then (let difference =
                                  timedelta_abs (date_sub (today env) (meta_date (meta metadata)))
                            in if tool (meta metadata) = default_tool env \<and> days difference < 28
                               then ([], Continue)
                               else process_archive env settings file archive
                                      (metadata, metron_info, comic_info))
                      else process_archive env settings file archive
                             (metadata, metron_info, comic_info)) of
                  (effs, fl) \<Rightarrow> (read_log @ effs, fl))))"

fun start_loop :: "Env \<Rightarrow> Settings \<Rightarrow> bool \<Rightarrow> path list \<Rightarrow> effect list \<times> error option" where
  "start_loop env settings force [] = ([], None)"
| "start_loop env settings force (file # files) =
     (case start_body env settings force file of
        (effs, Continue) \<Rightarrow>
          (case start_loop env settings force files of (effs', r) \<Rightarrow> (effs @ effs', r))
      | (effs, Return) \<Rightarrow> (effs, None)
      | (effs, Raise e) \<Rightarrow> (effs, Some e))"

definition start :: "Env \<Rightarrow> Settings \<Rightarrow> bool \<Rightarrow> effect list \<times> error option" where
  \<comment> \<open>The effects of a run, and the exception that ended it, if any.\<close>
  "start env settings force =
     (case convert_collection env (output_format (output settings))
             (list_convertible (utils env) (collection_folder settings)
                (output_format (output settings))) of
        (effs, Some e) \<Rightarrow> (Log INFO ''Starting Perdoo'' # effs, Some e)
      | (effs, None) \<Rightarrow>
          (case start_loop env settings force
                  (list_archives (utils env) (collection_folder settings)
                     (output_format (output settings))) of
             (effs', r) \<Rightarrow> (Log INFO ''Starting Perdoo'' # effs @ effs', r)))"

section \<open>Example values\<close>

definition example_metadata :: "Format \<Rightarrow> string option \<Rightarrow> Metadata" where
  \<comment> \<open>An issue of the series \<open>Saga\<close> (volume 1, publisher \<open>Image\<close>) of the given kind and number,
      with nothing else recorded.\<close>
  "example_metadata f n =
     \<lparr>issue =
        \<lparr>characters = [], cover_date = None, credits = [], format = f, locations = [],
         number = n, issue_resources = [],
         series = \<lparr>publisher = \<lparr>pub_resources = [], pub_title = ''Image''\<rparr>,
                   series_resources = [], start_year = None, series_title = ''Saga'', volume = 1\<rparr>,
         store_date = None, story_arcs = [], summary = None, teams = [], issue_title = None\<rparr>,
      meta = \<lparr>meta_date = 0, tool = \<lparr>tool_name = ''Perdoo'', tool_version = ''1''\<rparr>\<rparr>,
      pages = []\<rparr>"

definition example_tool :: Tool where
  "example_tool = \<lparr>tool_name = ''Perdoo'', tool_version = ''1''\<rparr>"

definition stamped :: "date \<Rightarrow> Metadata" where
  \<comment> \<open>Issue 1 of the example series, with a provenance stamp of the default tool dated \<open>d\<close>.\<close>
  "stamped d = (example_metadata COMIC (Some ''1''))\<lparr>meta := \<lparr>meta_date = d, tool = example_tool\<rparr>\<rparr>"

definition example_metron :: MetronInfo where
  "example_metron =
     \<lparr>mi_id = None, mi_publisher = \<lparr>mir_id = None, mir_value = ''Image''\<rparr>,
      mi_series = \<lparr>mise_id = None, mise_name = ''Saga''\<rparr>, mi_arcs = [], mi_characters = [],
      mi_cover_date = PyDate 0, mi_credits = [], mi_locations = [], mi_number = Some ''1'',
      mi_store_date = None, mi_summary = None, mi_teams = [], mi_collection_title = None,
      mi_url = None, mi_pages = []\<rparr>"

definition example_comic :: ComicInfo where
  "example_comic =
     \<lparr>ci_publisher = Some ''Image'', ci_series = Some ''Saga'', ci_character_list = [],
      ci_credits = [], ci_cover_date = None, ci_location_list = [], ci_number = Some ''1'',
      ci_story_arc_list = [], ci_summary = None, ci_team_list = [], ci_title = None,
      ci_web = None, ci_pages = []\<rparr>"

definition example_models :: Models where
  \<comment> \<open>A \<open>Metadata.xml\<close> holding \<open>today\<close>, \<open>future\<close>, \<open>far\<close> or \<open>old\<close> parses to a stamp of
      day 739000, 739010, 739028 or 738000; anything else is invalid.\<close>
  "example_models =
     \<lparr>metadata_from_bytes =
        (\<lambda>b. if b = ''today'' then Some (stamped 739000)
             else if b = ''future'' then Some (stamped 739010)
             else if b = ''far'' then Some (stamped 739028)
             else if b = ''old'' then Some (stamped 738000)
             else None),
      metron_info_from_bytes = (\<lambda>b. None),
      comic_info_from_bytes = (\<lambda>b. None),
      metron_to_metadata = (\<lambda>mi. stamped 0),
      comic_to_metadata = (\<lambda>ci. stamped 0),
      create_metadata_from = (\<lambda>a. stamped 0),
      metadata_to_metron = (\<lambda>md. example_metron),
      metadata_to_comic = (\<lambda>md. example_comic),
      metadata_page_from_path =
        (\<lambda>d name i final old. \<lparr>page_index = i, page_filename = name, is_final_page = final\<rparr>),
      metron_page_from_path =
        (\<lambda>d name i final old. \<lparr>mp_image = i, mp_filename = name, mp_is_final_page = final\<rparr>),
      comic_page_from_path =
        (\<lambda>d name i final old. \<lparr>cp_image = i, cp_filename = name, cp_is_final_page = final\<rparr>)\<rparr>"

definition example_lib :: "bool \<Rightarrow> ArchiveLib" where
  \<comment> \<open>Archives of the writable formats hold one page and a \<open>Metadata.xml\<close> whose bytes are
      the stem of the archive's name; they extract, and re-archive iff \<open>rearchive\<close>. No rar
      archive can be read or extracted (\<open>RarExecError\<close>).\<close>
  "example_lib rearchive =
     \<lparr>var_list_filenames = (\<lambda>a. ([], [''Metadata.xml'', ''p1.jpg''])),
      var_read_file =
        (\<lambda>a name. ([], if name = ''Metadata.xml'' then path_stem (path_name (archive_path a))
                         else [])),
      var_extract_files = (\<lambda>a dest. ([], True)),
      var_archive_files =
        (\<lambda>a src name. ([], if rearchive then Some (path_div src (name @ ''.cbz'')) else None)),
      rar_namelist = (\<lambda>p. None),
      rar_read = (\<lambda>p name. None),
      rar_extractall = (\<lambda>p dest. False),
      extracted = (\<lambda>a. [(''p1.jpg'', ''image'')])\<rparr>"

definition example_signatures :: Signatures where
  "example_signatures =
     \<lparr>is_zipfile = (\<lambda>b. take 2 b = ''PK''),
      is_rarfile = (\<lambda>b. take 4 b = ''Rar!''),
      is_tarfile = (\<lambda>b. take 5 (drop 257 b) = ''ustar''),
      is_7zfile = (\<lambda>b. take 2 b = ''7z'')\<rparr>"

definition example_fs :: "path \<Rightarrow> bytes" where
  \<comment> \<open>\<open>broken.cbz\<close> is a rar file under a zip name, \<open>notes.cbz\<close> is a text file, \<open>seven.cb7\<close>
      a 7z file; every other file is a zip file.\<close>
  "example_fs p =
     (if path_name p = ''broken.cbz'' then ''Rar!''
      else if path_name p = ''notes.cbz'' then ''hello''
      else if path_name p = ''seven.cb7'' then ''7z''
      else ''PK'')"

definition known_publisher :: Metadata where
  \<comment> \<open>The example issue with the Comicvine identifier 10 of its publisher on record.\<close>
  "known_publisher =
     (stamped 0)\<lparr>issue := (issue (stamped 0))\<lparr>series := (series (issue (stamped 0)))
        \<lparr>publisher := \<lparr>pub_resources = [\<lparr>source = COMICVINE, value = 10\<rparr>],
                        pub_title = ''Image''\<rparr>\<rparr>\<rparr>\<rparr>"

definition known_series :: Metadata where
  \<comment> \<open>The same issue with the Comicvine identifier 20 of its series on record as well.\<close>
  "known_series =
     known_publisher\<lparr>issue := (issue known_publisher)\<lparr>series := (series (issue known_publisher))
        \<lparr>series_resources := [\<lparr>source = COMICVINE, value = 20\<rparr>]\<rparr>\<rparr>\<rparr>"

definition example_session :: CV_Session where
  \<comment> \<open>Comicvine knows the publisher 10 and nothing else; every search is given up.\<close>
  "example_session =
     \<lparr>get_publisher = (\<lambda>i. if i = 10 then Some \<lparr>cvp_id = 10, cvp_name = ''Image Comics''\<rparr> else None),
      get_volume = (\<lambda>i. None),
      get_issue = (\<lambda>i. None),
      search_publishers = (\<lambda>title. None),
      search_series = (\<lambda>publisher_id title. None),
      search_issues = (\<lambda>series_id number. None),
      role_load = (\<lambda>s. None),
      asked_cover_date = 739000\<rparr>"

definition example_session_series :: CV_Session where
  \<comment> \<open>Comicvine knows the publisher 10 and the series 20, and no issue.\<close>
  "example_session_series =
     example_session
       \<lparr>get_volume :=
          (\<lambda>i. if i = 20
               then Some \<lparr>cvv_id = 20, cvv_name = ''Saga (2012)'', cvv_start_year = Some 2012\<rparr>
               else None)\<rparr>"

definition example_services :: Services where
  \<comment> \<open>Metron finds every issue and changes nothing; Marvel and the League find none.\<close>
  "example_services =
     \<lparr>marvel_fetch = (\<lambda>m. (False, m)),
      metron_fetch = (\<lambda>m. (True, m)),
      league_fetch = (\<lambda>m. (False, m)),
      comicvine_session = example_session\<rparr>"

definition example_settings :: "ComicvineSettings option \<Rightarrow> Settings" where
  \<comment> \<open>The collection \<open>comics\<close>, target format cbz, with Comicvine configured or not and no
      other service.\<close>
  "example_settings cv =
     \<lparr>collection_folder = [''comics''], comicvine = cv, league_of_comic_geeks = None,
      marvel = None, metron = None,
      output = \<lparr>create_comic_info = True, create_metadata = True, create_metron_info = True,
                 output_format = CBZ\<rparr>\<rparr>"

definition example_env :: "bool \<Rightarrow> path list \<Rightarrow> Env" where
  \<comment> \<open>Day 739000, with the archives \<open>files\<close> in the collection.\<close>
  "example_env rearchive files =
     \<lparr>utils = \<lparr>sanitize = (\<lambda>s. s), list_images = (\<lambda>d. map fst d),
                list_archives = (\<lambda>root f. files), list_convertible = (\<lambda>root f. [])\<rparr>,
      today = 739000,
      default_tool = example_tool,
      py7zr_loaded = True,
      signatures = example_signatures,
      fs = example_fs,
      lib = example_lib rearchive,
      models = example_models,
      services = example_services,
      mkdtemp = (\<lambda>prefix. [''tmp'', prefix @ ''x''])\<rparr>"

section \<open>Properties of the filename generator\<close>

lemma zfill_plain:
  "s \<noteq> [] \<Longrightarrow> hd s \<noteq> CHR ''+'' \<Longrightarrow> hd s \<noteq> CHR ''-'' \<Longrightarrow>
   zfill w s = replicate (w - length s) CHR ''0'' @ s"
  by (cases s) (auto simp: zfill_def Let_def)

lemma zfill_length: "length (zfill w s) = max w (length s)"
  by (cases s) (auto simp: zfill_def Let_def)

lemma split_on_no_separator: "c \<notin> set s \<Longrightarrow> split_on c s = [s]"
  by (induction s) auto

lemma path_div_plain: "plain_segment s \<Longrightarrow> path_div p s = p @ [s]"
  by (cases s) (auto simp: path_div_def plain_segment_def segment_parts_def split_on_no_separator)

lemma path_div_examples:
  "path_div [''a''] ''b/c'' = [''a'', ''b'', ''c''] \<and> path_div [''a''] '''' = [''a'']
   \<and> path_div [''a''] ''.'' = [''a''] \<and> path_div [''a''] ''/b'' = [''/'', ''b'']"
  by code_simp

lemma zfill_signed: "zfill 3 ''-5'' = ''-05'' \<and> zfill 3 ''1234'' = ''1234'' \<and> zfill 2 ''5'' = ''05''"
  by code_simp

lemma example_fields:
  "format (issue (example_metadata f n)) = f"
  "number (issue (example_metadata f n)) = n"
  "series_filename (example_metadata f n) = ''Saga''"
  "pub_title (publisher (series (issue (example_metadata f n)))) = ''Image''"
  by (simp_all add: example_metadata_def series_filename_def)

text \<open>
  Claim C7. The path of an issue is \<open>root/<publisher>/<series>/<issue-filename>.<extension>\<close>,
  every segment sanitized, and the issue filename follows the kind: for the default kind
  (\<open>COMIC\<close>) it is the sanitized series filename followed by \<open>_#\<close> and the number filled
  with zeros to 3 characters; for graphic novels, hardcovers and trade paperbacks the
  number is filled to 2 characters and stands before the suffix \<open>_GN\<close>, \<open>_HC\<close> or \<open>_TP\<close>;
  when no number is recorded (none, or the empty string) there is no number part at all.
  The filling is that of \<open>str.zfill\<close>: zeros on the left until the number is as long as
  the width (\<open>zfill_plain\<close>, \<open>zfill_length\<close>); a number that is longer is kept, and a
  leading sign stays in front and counts for the width (\<open>zfill_signed\<close>). The segments
  are joined as \<open>pathlib\<close> joins them, each being one part of the path when it is not
  empty, not \<open>.\<close> and holds no separator.
\<close>

theorem generate_filename_scheme:
  "generate_filename san root ext md =
     path_div (path_div (path_div root (san (pub_title (publisher (series (issue md))))))
                 (san (series_filename md)))
       (issue_filename san md @ ''.'' @ ext)
   \<and> (plain_segment (san (pub_title (publisher (series (issue md)))))
        \<and> plain_segment (san (series_filename md))
        \<and> plain_segment (issue_filename san md @ ''.'' @ ext) \<longrightarrow>
      generate_filename san root ext md =
        root @ [san (pub_title (publisher (series (issue md)))), san (series_filename md),
                issue_filename san md @ ''.'' @ ext])
   \<and> (format (issue md) = COMIC \<and> number (issue md) = Some n \<and> n \<noteq> [] \<longrightarrow>
        issue_filename san md = san (series_filename md) @ ''_#'' @ zfill 3 n)
   \<and> (format (issue md) = GRAPHIC_NOVEL \<and> number (issue md) = Some n \<and> n \<noteq> [] \<longrightarrow>
        issue_filename san md = san (series_filename md) @ ''_#'' @ zfill 2 n @ ''_GN'')
   \<and> (format (issue md) = HARDCOVER \<and> number (issue md) = Some n \<and> n \<noteq> [] \<longrightarrow>
        issue_filename san md = san (series_filename md) @ ''_#'' @ zfill 2 n @ ''_HC'')
   \<and> (format (issue md) = TRADE_PAPERBACK \<and> number (issue md) = Some n \<and> n \<noteq> [] \<longrightarrow>
        issue_filename san md = san (series_filename md) @ ''_#'' @ zfill 2 n @ ''_TP'')
   \<and> (number (issue md) = None \<or> number (issue md) = Some [] \<longrightarrow>
        issue_filename san md =
          san (series_filename md) @
            (case format (issue md) of
               ANNUAL \<Rightarrow> ''_Annual'' | DIGITAL_CHAPTER \<Rightarrow> ''_Chapter'' | GRAPHIC_NOVEL \<Rightarrow> ''_GN''
             | HARDCOVER \<Rightarrow> ''_HC'' | TRADE_PAPERBACK \<Rightarrow> ''_TP'' | COMIC \<Rightarrow> ''''))"
  by (cases "format (issue md)")
     (auto simp: generate_filename_def path_div_plain issue_filename_def number_str_def
        format_str_def)

theorem generate_filename_scheme_witness:
  "issue_filename (\<lambda>s. s) (example_metadata GRAPHIC_NOVEL (Some ''5'')) = ''Saga_#05_GN''
   \<and> issue_filename (\<lambda>s. s) (example_metadata COMIC (Some ''5'')) = ''Saga_#005''
   \<and> issue_filename (\<lambda>s. s) (example_metadata HARDCOVER (Some ''12'')) = ''Saga_#12_HC''
   \<and> issue_filename (\<lambda>s. s) (example_metadata TRADE_PAPERBACK (Some ''123'')) = ''Saga_#123_TP''
   \<and> issue_filename (\<lambda>s. s) (example_metadata COMIC None) = ''Saga''
   \<and> issue_filename (\<lambda>s. s) (example_metadata GRAPHIC_NOVEL None) = ''Saga_GN''
   \<and> generate_filename (\<lambda>s. s) [''comics''] ''cbz'' (example_metadata GRAPHIC_NOVEL (Some ''5''))
       = [''comics'', ''Image'', ''Saga'', ''Saga_#05_GN.cbz'']"
proof -
  have gn: "issue_filename (\<lambda>s. s) (example_metadata GRAPHIC_NOVEL (Some ''5'')) = ''Saga_#05_GN''"
    using generate_filename_scheme [of "\<lambda>s. s" "[''comics'']" "''cbz''"
            "example_metadata GRAPHIC_NOVEL (Some ''5'')" "''5''"]
    by (simp add: example_fields zfill_def eval_nat_numeral)
  have others:
    "issue_filename (\<lambda>s. s) (example_metadata COMIC (Some ''5'')) = ''Saga_#005''
     \<and> issue_filename (\<lambda>s. s) (example_metadata HARDCOVER (Some ''12'')) = ''Saga_#12_HC''
     \<and> issue_filename (\<lambda>s. s) (example_metadata TRADE_PAPERBACK (Some ''123'')) = ''Saga_#123_TP''
     \<and> issue_filename (\<lambda>s. s) (example_metadata COMIC None) = ''Saga''
     \<and> issue_filename (\<lambda>s. s) (example_metadata GRAPHIC_NOVEL None) = ''Saga_GN''"
    using generate_filename_scheme [of "\<lambda>s. s" "[''comics'']" "''cbz''"
            "example_metadata COMIC (Some ''5'')" "''5''"]
          generate_filename_scheme [of "\<lambda>s. s" "[''comics'']" "''cbz''"
            "example_metadata HARDCOVER (Some ''12'')" "''12''"]
          generate_filename_scheme [of "\<lambda>s. s" "[''comics'']" "''cbz''"
            "example_metadata TRADE_PAPERBACK (Some ''123'')" "''123''"]
          generate_filename_scheme [of "\<lambda>s. s" "[''comics'']" "''cbz''"
            "example_metadata COMIC None" "''''"]
          generate_filename_scheme [of "\<lambda>s. s" "[''comics'']" "''cbz''"
            "example_metadata GRAPHIC_NOVEL None" "''''"]
    by (simp add: example_fields zfill_def eval_nat_numeral)
  have path:
    "generate_filename (\<lambda>s. s) [''comics''] ''cbz'' (example_metadata GRAPHIC_NOVEL (Some ''5''))
       = [''comics'', ''Image'', ''Saga'', ''Saga_#05_GN.cbz'']"
    using generate_filename_scheme [of "\<lambda>s. s" "[''comics'']" "''cbz''"
            "example_metadata GRAPHIC_NOVEL (Some ''5'')" "''5''"]
    by (simp add: gn example_fields path_div_plain plain_segment_def)
  show ?thesis
    using gn others path by simp
qed

section \<open>Properties of the Comicvine merge functions\<close>

lemma py_set_add_set: "set (py_list (py_set_add x (py_set xs))) = set xs \<union> {x}"
  by (auto simp: py_list_def py_set_add_def py_set_def)

lemma py_set_add_distinct: "distinct (py_list (py_set_add x (py_set xs)))"
  by (simp add: py_list_def py_set_add_def py_set_def)

text \<open>
  Claim C8. Merging a resolved publisher, series or issue into the canonical metadata
  leaves in the entity's \<open>resources\<close> exactly the identifiers that were there before
  together with the new pair (Comicvine, id), and no pair occurs twice. The statement
  is about the elements of the list and their multiplicity, so it does not depend on the
  order in which a Python set is iterated.
\<close>

theorem resources_merged_as_set_union:
  "set (pub_resources (publisher (series (issue (add_publisher_to_metadata pub md)))))
     = set (pub_resources (publisher (series (issue md))))
       \<union> {\<lparr>source = COMICVINE, value = cvp_id pub\<rparr>}
   \<and> distinct (pub_resources (publisher (series (issue (add_publisher_to_metadata pub md)))))
   \<and> set (series_resources (series (issue (add_series_to_metadata vol md))))
     = set (series_resources (series (issue md))) \<union> {\<lparr>source = COMICVINE, value = cvv_id vol\<rparr>}
   \<and> distinct (series_resources (series (issue (add_series_to_metadata vol md))))
   \<and> set (issue_resources (issue (add_issue_to_metadata iss md)))
     = set (issue_resources (issue md)) \<union> {\<lparr>source = COMICVINE, value = cvi_id iss\<rparr>}
   \<and> distinct (issue_resources (issue (add_issue_to_metadata iss md)))"
  by (simp add: add_publisher_to_metadata_def add_series_to_metadata_def
        add_issue_to_metadata_def Let_def py_set_add_set py_set_add_distinct)

text \<open>
  Claim C10. \<open>add_issue_to_metron_info\<close> stores in \<open>cover_date\<close> a tuple of one element,
  the date of the issue or, when the issue has none, the date the prompt returned; it is
  never a date itself. \<open>store_date\<close> receives the value of the issue as it is.
\<close>

theorem metron_cover_date_is_tuple:
  "mi_cover_date (add_issue_to_metron_info rl asked iss mi)
     = PyTuple [PyDate (case cvi_cover_date iss of Some d \<Rightarrow> d | None \<Rightarrow> asked)]
   \<and> (\<forall>d. mi_cover_date (add_issue_to_metron_info rl asked iss mi) \<noteq> PyDate d)
   \<and> mi_store_date (add_issue_to_metron_info rl asked iss mi) = cvi_store_date iss"
  by (simp add: add_issue_to_metron_info_def Let_def split: option.split)

section \<open>Properties of the orchestrator\<close>

lemma process_archive_logs:
  "Log INFO (''Processing '' @ path_name file)
     \<in> set (fst (process_archive env settings file archive m))"
  by (cases m)
     (simp add: process_archive_def Let_def split: prod.split sum.split option.split)

lemma process_archive_nonempty: "fst (process_archive env settings file archive m) \<noteq> []"
  using process_archive_logs [of "file" env settings archive m] by auto

lemma abs_days: "days (timedelta_abs (date_sub a b)) = \<bar>a - b\<bar>"
  by (simp add: timedelta_abs_def date_sub_def)

lemma start_body_gate:
  assumes "get_archive (py7zr_loaded env) (signatures env) (fs env) file = Inr archive"
    and "read_archive (lib env) (models env) archive = (read_log, m)"
  shows "start_body env settings force file =
     (if \<not> force \<and> tool (meta (fst m)) = default_tool env
           \<and> \<bar>today env - meta_date (meta (fst m))\<bar> < 28
      then (read_log, Continue)
      else (read_log @ fst (process_archive env settings file archive m),
            snd (process_archive env settings file archive m)))"
  using assms
  by (cases m) (auto simp: start_body_def Let_def abs_days split: prod.split)

lemma stamped_fields:
  "tool (meta (stamped d)) = default_tool (example_env r fs')"
  "meta_date (meta (stamped d)) = d"
  "today (example_env r fs') = 739000"
  by (simp_all add: stamped_def example_env_def)



text \<open>
  Claim C9. The gate takes the absolute value of the difference between today and the
  stamp's date, so a stamp in the future is measured by how far ahead it is. Without
  \<open>force\<close>, an archive stamped by the default tool with a date in the future is skipped
  when the date is less than 28 days ahead, and it is processed when the date is 28 days
  ahead or more (a signed difference would skip every future stamp).
\<close>

theorem future_stamp_skipped:
  assumes "get_archive (py7zr_loaded env) (signatures env) (fs env) file = Inr archive"
    and "read_archive (lib env) (models env) archive = (read_log, metadata, metron_info, comic_info)"
    and "tool (meta metadata) = default_tool env"
    and "today env < meta_date (meta metadata)"
  shows "(meta_date (meta metadata) - today env < 28 \<longrightarrow>
           start_body env settings False file = (read_log, Continue))
       \<and> (28 \<le> meta_date (meta metadata) - today env \<longrightarrow>
           start_body env settings False file \<noteq> (read_log, Continue)
           \<and> Log INFO (''Processing '' @ path_name file)
               \<in> set (fst (start_body env settings False file)))"
  using start_body_gate [OF assms(1,2), of settings False] assms(3,4)
        process_archive_nonempty [of env settings "file" archive "(metadata, metron_info, comic_info)"]
        process_archive_logs [of "file" env settings archive "(metadata, metron_info, comic_info)"]
  by auto

theorem future_stamp_skipped_witness:
  "start_body (example_env True []) (example_settings None) False [''comics'', ''future.cbz'']
     = ([], Continue)
   \<and> start_body (example_env True []) (example_settings None) False [''comics'', ''far.cbz'']
     \<noteq> ([], Continue)
   \<and> Log INFO ''Processing far.cbz''
        \<in> set (fst (start_body (example_env True []) (example_settings None) False
                      [''comics'', ''far.cbz'']))"
proof -
  have ga: "get_archive (py7zr_loaded (example_env True [])) (signatures (example_env True []))
      (fs (example_env True [])) [''comics'', ''future.cbz'']
      = Inr \<lparr>kind = CBZArchive, archive_path = [''comics'', ''future.cbz'']\<rparr>"
    by code_simp
  have ra: "read_archive (lib (example_env True [])) (models (example_env True []))
      \<lparr>kind = CBZArchive, archive_path = [''comics'', ''future.cbz'']\<rparr>
      = ([], stamped 739010, example_metron, example_comic)"
    by code_simp
  have ga': "get_archive (py7zr_loaded (example_env True [])) (signatures (example_env True []))
      (fs (example_env True [])) [''comics'', ''far.cbz'']
      = Inr \<lparr>kind = CBZArchive, archive_path = [''comics'', ''far.cbz'']\<rparr>"
    by code_simp
  have ra': "read_archive (lib (example_env True [])) (models (example_env True []))
      \<lparr>kind = CBZArchive, archive_path = [''comics'', ''far.cbz'']\<rparr>
      = ([], stamped 739028, example_metron, example_comic)"
    by code_simp
  show ?thesis
    using future_stamp_skipped [OF ga ra, of "example_settings None"]
          future_stamp_skipped [OF ga' ra', of "example_settings None"]
    by (simp add: stamped_fields path_name_def)
qed

lemma start_loop_return:
  "snd (start_body env settings force file) = Return \<Longrightarrow>
   start_loop env settings force (file # files) = (fst (start_body env settings force file), None)"
  by (cases "start_body env settings force file") simp

lemma start_loop_continue:
  "snd (start_body env settings force file) = Continue \<Longrightarrow>
   fst (start_loop env settings force (file # files))
     = fst (start_body env settings force file) @ fst (start_loop env settings force files)"
  by (cases "start_body env settings force file") (simp split: prod.split)

lemma extract_failure_returns:
  "\<forall>dest. \<not> snd (extract_files (lib env) archive dest) \<Longrightarrow>
   snd (process_archive env settings file archive m) = Return"
  by (simp add: process_archive_def Let_def case_prod_unfold)

text \<open>
  Claim C1 against the code. When \<open>extract_files\<close> returns false the loop body executes
  \<open>return\<close>, which leaves \<open>start\<close>: by \<open>extract_failure_returns\<close> and \<open>start_loop_return\<close>
  no later file is visited. In the example collection \<open>broken.cbz\<close> (a rar file that
  cannot be extracted) comes before \<open>old.cbz\<close>: the run ends after \<open>broken.cbz\<close> and
  \<open>old.cbz\<close> is never processed, although it is processed when it is alone, and also
  when the archive before it fails to be re-archived (the \<open>continue\<close> of that path).
\<close>

theorem start_ends_run_on_extract_failure:
  "start (example_env True [[''comics'', ''broken.cbz''], [''comics'', ''old.cbz'']])
         (example_settings None) False
     = ([Log INFO ''Starting Perdoo'', Log ERROR ''Unable to read broken.cbz'',
         ConsoleRule ''broken'', Log INFO ''Processing broken.cbz'',
         Log WARNING ''No external services configured'',
         MakeTemp [''tmp'', ''Saga_#001_x''], Log ERROR '''',
         RemoveTemp [''tmp'', ''Saga_#001_x'']],
        None)
   \<and> Log INFO ''Processing old.cbz''
        \<notin> set (fst (start (example_env True [[''comics'', ''broken.cbz''], [''comics'', ''old.cbz'']])
                          (example_settings None) False))
   \<and> Log INFO ''Processing old.cbz''
        \<in> set (fst (start (example_env True [[''comics'', ''old.cbz'']])
                          (example_settings None) False))
   \<and> Log INFO ''Processing old.cbz''
        \<in> set (fst (start (example_env False [[''comics'', ''junk.cbz''], [''comics'', ''old.cbz'']])
                          (example_settings None) False))"
  by code_simp

section \<open>Properties of the archive dispatch\<close>

text \<open>
  Claim C2 as stated fails: without \<open>py7zr\<close> a file whose contents carry the 7z signature
  is refused as unsupported, although it matches one of the four signatures.
\<close>

theorem get_archive_unsupported_counterexample:
  "is_7zfile example_signatures (example_fs [''comics'', ''seven.cb7''])
   \<and> get_archive False example_signatures example_fs [''comics'', ''seven.cb7'']
       = Inl (NotImplementedError ''seven.cb7 is an unsupported archive'')"
  by code_simp

text \<open>
  Claim C2, amended. \<open>get_archive\<close> looks at the contents of the file only (two paths with
  the same contents get the same variant), testing the zip, rar and tar signatures in
  this order and returning the variant of the first that matches. The 7z variant needs
  \<open>py7zr\<close>: when it is loaded, contents that match none of the first three signatures and
  match the 7z signature give the 7z variant; when it is not loaded, the unsupported
  archive error is raised exactly when the contents match none of the zip, rar and tar
  signatures. Nothing is said here about contents that match none of the four
  signatures while \<open>py7zr\<close> is loaded.
\<close>

theorem get_archive_dispatch:
  "(is_zipfile sig (store p) \<longrightarrow>
      get_archive loaded sig store p = Inr \<lparr>kind = CBZArchive, archive_path = p\<rparr>)
   \<and> (\<not> is_zipfile sig (store p) \<and> is_rarfile sig (store p) \<longrightarrow>
      get_archive loaded sig store p = Inr \<lparr>kind = CBRArchive, archive_path = p\<rparr>)
   \<and> (\<not> is_zipfile sig (store p) \<and> \<not> is_rarfile sig (store p) \<and> is_tarfile sig (store p) \<longrightarrow>
      get_archive loaded sig store p = Inr \<lparr>kind = CBTArchive, archive_path = p\<rparr>)
   \<and> (\<not> is_zipfile sig (store p) \<and> \<not> is_rarfile sig (store p) \<and> \<not> is_tarfile sig (store p)
        \<and> loaded \<and> is_7zfile sig (store p) \<longrightarrow>
      get_archive loaded sig store p = Inr \<lparr>kind = CB7Archive, archive_path = p\<rparr>)
   \<and> (\<not> loaded \<longrightarrow>
        (get_archive loaded sig store p
           = Inl (NotImplementedError (path_name p @ '' is an unsupported archive'')))
        = (\<not> is_zipfile sig (store p) \<and> \<not> is_rarfile sig (store p) \<and> \<not> is_tarfile sig (store p)))
   \<and> (\<not> loaded \<longrightarrow>
        (\<exists>e. get_archive loaded sig store p = Inl e)
        = (\<not> is_zipfile sig (store p) \<and> \<not> is_rarfile sig (store p) \<and> \<not> is_tarfile sig (store p)))
   \<and> (store p = store q \<longrightarrow>
        map_sum (\<lambda>e. ()) kind (get_archive loaded sig store p)
        = map_sum (\<lambda>e. ()) kind (get_archive loaded sig store q))"
  by (auto simp: get_archive_def truthy_callable_def)

theorem get_archive_dispatch_witness:
  "get_archive True example_signatures example_fs [''comics'', ''old.cbz'']
     = Inr \<lparr>kind = CBZArchive, archive_path = [''comics'', ''old.cbz'']\<rparr>
   \<and> get_archive True example_signatures example_fs [''comics'', ''broken.cbz'']
     = Inr \<lparr>kind = CBRArchive, archive_path = [''comics'', ''broken.cbz'']\<rparr>
   \<and> get_archive True example_signatures example_fs [''comics'', ''seven.cb7'']
     = Inr \<lparr>kind = CB7Archive, archive_path = [''comics'', ''seven.cb7'']\<rparr>
   \<and> get_archive False example_signatures example_fs [''comics'', ''notes.cbz'']
     = Inl (NotImplementedError ''notes.cbz is an unsupported archive'')"
proof -
  have sigs:
    "is_zipfile example_signatures (example_fs [''comics'', ''old.cbz''])"
    "\<not> is_zipfile example_signatures (example_fs [''comics'', ''broken.cbz''])"
    "is_rarfile example_signatures (example_fs [''comics'', ''broken.cbz''])"
    "\<not> is_zipfile example_signatures (example_fs [''comics'', ''seven.cb7''])"
    "\<not> is_rarfile example_signatures (example_fs [''comics'', ''seven.cb7''])"
    "\<not> is_tarfile example_signatures (example_fs [''comics'', ''seven.cb7''])"
    "is_7zfile example_signatures (example_fs [''comics'', ''seven.cb7''])"
    "\<not> is_zipfile example_signatures (example_fs [''comics'', ''notes.cbz''])"
    "\<not> is_rarfile example_signatures (example_fs [''comics'', ''notes.cbz''])"
    "\<not> is_tarfile example_signatures (example_fs [''comics'', ''notes.cbz''])"
    by code_simp+
  show ?thesis
    using get_archive_dispatch [of example_signatures example_fs "[''comics'', ''old.cbz'']" True]
          get_archive_dispatch [of example_signatures example_fs "[''comics'', ''broken.cbz'']" True]
          get_archive_dispatch [of example_signatures example_fs "[''comics'', ''seven.cb7'']" True]
          get_archive_dispatch [of example_signatures example_fs "[''comics'', ''notes.cbz'']" False]
    by (simp add: sigs path_name_def)
qed

text \<open>
  The last test of \<open>get_archive\<close> names \<open>is_7zfile\<close> without applying it to the path. With
  \<open>py7zr\<close> loaded, a text file that matches none of the four signatures is returned as a
  7z archive and no error is raised.
\<close>

lemma get_archive_never_calls_is_7zfile:
  "\<not> is_zipfile example_signatures (example_fs [''comics'', ''notes.cbz''])
   \<and> \<not> is_rarfile example_signatures (example_fs [''comics'', ''notes.cbz''])
   \<and> \<not> is_tarfile example_signatures (example_fs [''comics'', ''notes.cbz''])
   \<and> \<not> is_7zfile example_signatures (example_fs [''comics'', ''notes.cbz''])
   \<and> get_archive True example_signatures example_fs [''comics'', ''notes.cbz'']
       = Inr \<lparr>kind = CB7Archive, archive_path = [''comics'', ''notes.cbz'']\<rparr>"
  by code_simp

section \<open>Properties of the reconciliation\<close>

lemma read_entry_parsed:
  "snd (read_entry al archive (snd (list_filenames al archive)) from_bytes name)
     = parsed_entry al archive from_bytes name"
  by (simp add: read_entry_def parsed_entry_def Let_def split: option.split prod.split)

lemma read_archive_snd:
  "snd (read_archive al mdl archive) =
     (let pm = parsed_entry al archive (metadata_from_bytes mdl) ''Metadata'';
          pmi = parsed_entry al archive (metron_info_from_bytes mdl) ''MetronInfo'';
          pci = parsed_entry al archive (comic_info_from_bytes mdl) ''ComicInfo'';
          md = (case pm of Some m \<Rightarrow> m
                | None \<Rightarrow> (case pmi of Some mi \<Rightarrow> metron_to_metadata mdl mi
                           | None \<Rightarrow> (case pci of Some ci \<Rightarrow> comic_to_metadata mdl ci
                                      | None \<Rightarrow> create_metadata_from mdl archive)))
      in (md, (case pmi of Some mi \<Rightarrow> mi | None \<Rightarrow> metadata_to_metron mdl md),
              (case pci of Some ci \<Rightarrow> ci | None \<Rightarrow> metadata_to_comic mdl md)))"
  using read_entry_parsed [of al archive "metadata_from_bytes mdl" "''Metadata''"]
        read_entry_parsed [of al archive "metron_info_from_bytes mdl" "''MetronInfo''"]
        read_entry_parsed [of al archive "comic_info_from_bytes mdl" "''ComicInfo''"]
  by (auto simp: read_archive_def Let_def split: prod.split)

text \<open>
  Claim C4. Whatever the three metadata files of an archive parse to (\<open>pm\<close>, \<open>pmi\<close>, \<open>pci\<close>:
  a value, or \<open>None\<close> for a file that is absent or invalid), \<open>read_archive\<close> returns three
  schemas. The canonical metadata is the parsed one if there is one, else it is derived
  from MetronInfo if that parsed, else from ComicInfo if that parsed, else created from
  the archive. MetronInfo and ComicInfo are the parsed ones, and each that is missing is
  derived from the canonical metadata that is returned.
\<close>

theorem read_archive_precedence:
  assumes "parsed_entry al archive (metadata_from_bytes mdl) ''Metadata'' = pm"
    and "parsed_entry al archive (metron_info_from_bytes mdl) ''MetronInfo'' = pmi"
    and "parsed_entry al archive (comic_info_from_bytes mdl) ''ComicInfo'' = pci"
  shows "\<exists>log md mi ci. read_archive al mdl archive = (log, md, mi, ci)
     \<and> (\<forall>m. pm = Some m \<longrightarrow> md = m)
     \<and> (\<forall>x. pm = None \<and> pmi = Some x \<longrightarrow> md = metron_to_metadata mdl x)
     \<and> (\<forall>c. pm = None \<and> pmi = None \<and> pci = Some c \<longrightarrow> md = comic_to_metadata mdl c)
     \<and> (pm = None \<and> pmi = None \<and> pci = None \<longrightarrow> md = create_metadata_from mdl archive)
     \<and> (\<forall>x. pmi = Some x \<longrightarrow> mi = x)
     \<and> (pmi = None \<longrightarrow> mi = metadata_to_metron mdl md)
     \<and> (\<forall>c. pci = Some c \<longrightarrow> ci = c)
     \<and> (pci = None \<longrightarrow> ci = metadata_to_comic mdl md)"
proof -
  obtain log md mi ci where r: "read_archive al mdl archive = (log, md, mi, ci)"
    by (metis prod_cases4)
  have e: "(md, mi, ci) =
     (let md' = (case pm of Some m \<Rightarrow> m
                | None \<Rightarrow> (case pmi of Some mi \<Rightarrow> metron_to_metadata mdl mi
                           | None \<Rightarrow> (case pci of Some ci \<Rightarrow> comic_to_metadata mdl ci
                                      | None \<Rightarrow> create_metadata_from mdl archive)))
      in (md', (case pmi of Some mi \<Rightarrow> mi | None \<Rightarrow> metadata_to_metron mdl md'),
              (case pci of Some ci \<Rightarrow> ci | None \<Rightarrow> metadata_to_comic mdl md')))"
    using read_archive_snd [of al mdl archive] assms by (simp add: r Let_def)
  have "(\<forall>m. pm = Some m \<longrightarrow> md = m)
     \<and> (\<forall>x. pm = None \<and> pmi = Some x \<longrightarrow> md = metron_to_metadata mdl x)
     \<and> (\<forall>c. pm = None \<and> pmi = None \<and> pci = Some c \<longrightarrow> md = comic_to_metadata mdl c)
     \<and> (pm = None \<and> pmi = None \<and> pci = None \<longrightarrow> md = create_metadata_from mdl archive)
     \<and> (\<forall>x. pmi = Some x \<longrightarrow> mi = x)
     \<and> (pmi = None \<longrightarrow> mi = metadata_to_metron mdl md)
     \<and> (\<forall>c. pci = Some c \<longrightarrow> ci = c)
     \<and> (pci = None \<longrightarrow> ci = metadata_to_comic mdl md)"
    using e by (auto simp: Let_def)
  then show ?thesis
    using r by blast
qed

theorem read_archive_precedence_witness:
  "snd (read_archive (example_lib True) example_models
          \<lparr>kind = CBZArchive, archive_path = [''comics'', ''today.cbz'']\<rparr>)
     = (stamped 739000, example_metron, example_comic)
   \<and> snd (read_archive (example_lib True) example_models
          \<lparr>kind = CBRArchive, archive_path = [''comics'', ''broken.cbz'']\<rparr>)
     = (stamped 0, example_metron, example_comic)"
proof -
  have a:
    "parsed_entry (example_lib True) \<lparr>kind = CBZArchive, archive_path = [''comics'', ''today.cbz'']\<rparr>
       (metadata_from_bytes example_models) ''Metadata'' = Some (stamped 739000)"
    "parsed_entry (example_lib True) \<lparr>kind = CBZArchive, archive_path = [''comics'', ''today.cbz'']\<rparr>
       (metron_info_from_bytes example_models) ''MetronInfo'' = None"
    "parsed_entry (example_lib True) \<lparr>kind = CBZArchive, archive_path = [''comics'', ''today.cbz'']\<rparr>
       (comic_info_from_bytes example_models) ''ComicInfo'' = None"
    by code_simp+
  have b:
    "parsed_entry (example_lib True) \<lparr>kind = CBRArchive, archive_path = [''comics'', ''broken.cbz'']\<rparr>
       (metadata_from_bytes example_models) ''Metadata'' = None"
    "parsed_entry (example_lib True) \<lparr>kind = CBRArchive, archive_path = [''comics'', ''broken.cbz'']\<rparr>
       (metron_info_from_bytes example_models) ''MetronInfo'' = None"
    "parsed_entry (example_lib True) \<lparr>kind = CBRArchive, archive_path = [''comics'', ''broken.cbz'']\<rparr>
       (comic_info_from_bytes example_models) ''ComicInfo'' = None"
    by code_simp+
  show ?thesis
    using read_archive_precedence [OF a] read_archive_precedence [OF b]
    by (auto simp: example_models_def)
qed

section \<open>Properties of the page synchronizer\<close>

lemma rename_loop_canonical_head:
  "fst (rename_loop filename pad i ((filename @ ''-'' @ rest) # imgs) d) \<noteq> []"
  by (simp add: Let_def split: sum.split prod.split)

text \<open>
  Claim C3 against the code. \<open>rename_images\<close> compares the name of an image with
  \<open><base-name>_<index><extension>\<close>, written with an underscore, and renames to
  \<open><base-name>-<index><extension>\<close>, written with a hyphen. A directory that is already in
  the canonical form is therefore renamed again on every run, file by file (to the names
  the files already have, and the log says so), while a file in the underscore form is
  left alone. By \<open>rename_loop_canonical_head\<close> this is so for every canonical name.
\<close>

theorem rename_images_renames_canonical_names:
  "rename_images (utils (example_env True [])) [(''Saga-0.jpg'', ''image'')] ''Saga''
     = ([Log INFO ''Renamed Saga-0.jpg to Saga_0.jpg'', Rename ''Saga-0.jpg'' ''Saga-0.jpg''],
        Inr [(''Saga-0.jpg'', ''image'')])
   \<and> rename_images (utils (example_env True [])) [(''Saga_0.jpg'', ''image'')] ''Saga''
     = ([], Inr [(''Saga_0.jpg'', ''image'')])"
  by code_simp

section \<open>Properties of the enrichment\<close>

lemma any_fetch_all_fail: "all_fail cs m \<Longrightarrow> any_fetch cs m = (False, after_services cs m)"
  by (induction cs m rule: all_fail.induct) auto

lemma any_fetch_stops:
  "all_fail pre m \<Longrightarrow> fst (f (after_services pre m)) \<Longrightarrow>
   any_fetch (pre @ Some f # post) m = (True, snd (f (after_services pre m)))"
  by (induction pre m rule: all_fail.induct) auto

lemma any_fetch_fails_iff: "(\<not> fst (any_fetch cs m)) = all_fail cs m"
  by (induction cs m rule: any_fetch.induct) auto

lemma after_services_harmless:
  "all_fail cs m \<Longrightarrow> \<forall>f. Some f \<in> set cs \<longrightarrow> harmless_on_failure f \<Longrightarrow>
   after_services cs m = m"
  by (induction cs m rule: all_fail.induct) (auto simp: harmless_on_failure_def)

lemma fetch_fails_at_publisher:
  "fst (fetch_publisher cv m) = None \<Longrightarrow> fetch cv m = (False, m)"
  by (cases m) (auto simp: fetch_def fetch_publisher_def Let_def split: option.splits if_splits)

lemma fetch_publisher_merges:
  "fetch_publisher cv (md, mi, ci) = (Some pub, m1) \<Longrightarrow>
   m1 = (add_publisher_to_metadata pub md, add_publisher_to_metron_info pub mi,
         add_publisher_to_comic_info pub ci)"
  by (auto simp: fetch_publisher_def Let_def split: option.splits if_splits)

lemma fetch_series_merges:
  "fetch_series cv (md, mi, ci) p = (Some vol, m2) \<Longrightarrow>
   m2 = (add_series_to_metadata vol md, add_series_to_metron_info vol mi,
         add_series_to_comic_info vol ci)"
  by (auto simp: fetch_series_def Let_def split: option.splits if_splits)

lemma fetch_series_unchanged:
  "fst (fetch_series cv m p) = None \<Longrightarrow> fetch_series cv m p = (None, m)"
  by (cases m) (auto simp: fetch_series_def Let_def split: option.splits if_splits)

lemma fetch_issue_unchanged:
  "fst (fetch_issue cv m s) = None \<Longrightarrow> fetch_issue cv m s = (None, m)"
  by (cases m) (auto simp: fetch_issue_def Let_def split: option.splits if_splits)

lemma configured_services_order:
  "\<exists>a b c d. configured_services svc settings = [a, b, c, d]
     \<and> a \<in> {None, Some (marvel_fetch svc)} \<and> b \<in> {None, Some (metron_fetch svc)}
     \<and> c \<in> {None, Some (fetch (comicvine_session svc))} \<and> d \<in> {None, Some (league_fetch svc)}"
  by (auto simp: configured_services_def Let_def split: option.split)

text \<open>
  Claim C5 as stated fails. Comicvine is the only configured service; the publisher of
  the issue is known by its identifier and is found, the series is not. The fetch
  reports failure and the warning is logged, but the publisher has already been merged
  into the three objects: the publisher's title has changed from \<open>Image\<close> to
  \<open>Image Comics\<close>.
\<close>

theorem failed_enrichment_changes_metadata:
  "fst (fetch_from_services example_services (example_settings (Some \<lparr>api_key = Some ''key''\<rparr>))
          (known_publisher, example_metron, example_comic))
     = [Log WARNING ''Unable to fetch information fron any service'']
   \<and> fetch example_session (known_publisher, example_metron, example_comic)
     = (False, add_publisher_to_metadata \<lparr>cvp_id = 10, cvp_name = ''Image Comics''\<rparr> known_publisher,
               add_publisher_to_metron_info \<lparr>cvp_id = 10, cvp_name = ''Image Comics''\<rparr> example_metron,
               add_publisher_to_comic_info \<lparr>cvp_id = 10, cvp_name = ''Image Comics''\<rparr> example_comic)
   \<and> pub_title (publisher (series (issue known_publisher))) = ''Image''
   \<and> pub_title (publisher (series (issue (fst (snd
        (fetch_from_services example_services (example_settings (Some \<lparr>api_key = Some ''key''\<rparr>))
           (known_publisher, example_metron, example_comic))))))) = ''Image Comics''
   \<and> snd (fetch_from_services example_services (example_settings (Some \<lparr>api_key = Some ''key''\<rparr>))
          (known_publisher, example_metron, example_comic))
     \<noteq> (known_publisher, example_metron, example_comic)"
  by code_simp

text \<open>
  Claim C5, amended. The services with complete credentials are tried in the order
  Marvel, Metron, Comicvine, League, each on the objects as the services before it left
  them. At the first whose fetch reports success the enrichment stops: the objects are
  as that service left them, nothing is logged and no later service is tried. If every
  configured service fails, the warning is logged and the objects are as the failed
  services left them; they are unchanged when every configured service leaves them
  unchanged on failure. Comicvine's fetch leaves them unchanged when it fails at the
  publisher stage. When it fails at the series stage it keeps the publisher it has
  merged (name and identifier, in the three objects), and when it fails at the issue
  stage it keeps the publisher and the series it has merged.
\<close>

theorem enrichment_in_order:
  "(configured_services svc settings = pre @ Some f # post \<and> all_fail pre m
      \<and> fst (f (after_services pre m)) \<longrightarrow>
      fetch_from_services svc settings m = ([], snd (f (after_services pre m))))
   \<and> ((\<exists>f. Some f \<in> set (configured_services svc settings))
        \<and> all_fail (configured_services svc settings) m \<longrightarrow>
      fetch_from_services svc settings m
        = ([Log WARNING ''Unable to fetch information fron any service''],
           after_services (configured_services svc settings) m))
   \<and> ((\<exists>f. Some f \<in> set (configured_services svc settings))
        \<and> all_fail (configured_services svc settings) m
        \<and> (\<forall>f. Some f \<in> set (configured_services svc settings) \<longrightarrow> harmless_on_failure f) \<longrightarrow>
      snd (fetch_from_services svc settings m) = m)
   \<and> (fst (fetch_publisher cv m) = None \<longrightarrow> fetch cv m = (False, m))
   \<and> configured_services svc settings =
       [if \<exists>s. marvel settings = Some s \<and> truthy_str (public_key s) \<and> truthy_str (private_key s)
        then Some (marvel_fetch svc) else None,
        if \<exists>s. metron settings = Some s \<and> truthy_str (username s) \<and> truthy_str (password s)
        then Some (metron_fetch svc) else None,
        if \<exists>s. comicvine settings = Some s \<and> truthy_str (api_key s)
        then Some (fetch (comicvine_session svc)) else None,
        if \<exists>s. league_of_comic_geeks settings = Some s \<and> truthy_str (client_id s)
                \<and> truthy_str (client_secret s)
        then Some (league_fetch svc) else None]
   \<and> (fetch_publisher cv (md, mi, ci) = (Some pub, m1)
        \<and> fst (fetch_series cv m1 (cvp_id pub)) = None \<longrightarrow>
      fetch cv (md, mi, ci)
        = (False, add_publisher_to_metadata pub md, add_publisher_to_metron_info pub mi,
                  add_publisher_to_comic_info pub ci))
   \<and> (fetch_publisher cv (md, mi, ci) = (Some pub, m1)
        \<and> fetch_series cv m1 (cvp_id pub) = (Some vol, m2)
        \<and> fst (fetch_issue cv m2 (cvv_id vol)) = None \<longrightarrow>
      fetch cv (md, mi, ci)
        = (False, add_series_to_metadata vol (add_publisher_to_metadata pub md),
                  add_series_to_metron_info vol (add_publisher_to_metron_info pub mi),
                  add_series_to_comic_info vol (add_publisher_to_comic_info pub ci)))
   \<and> pub_title (publisher (series (issue (add_publisher_to_metadata pub md)))) = cvp_name pub
   \<and> \<lparr>source = COMICVINE, value = cvp_id pub\<rparr>
        \<in> set (pub_resources (publisher (series (issue (add_publisher_to_metadata pub md)))))
   \<and> ci_publisher (add_publisher_to_comic_info pub ci) = Some (cvp_name pub)
   \<and> mir_value (mi_publisher (add_publisher_to_metron_info pub mi)) = cvp_name pub
   \<and> series_title (series (issue (add_series_to_metadata vol md))) = cvv_name vol
   \<and> \<lparr>source = COMICVINE, value = cvv_id vol\<rparr>
        \<in> set (series_resources (series (issue (add_series_to_metadata vol md))))
   \<and> publisher (series (issue (add_series_to_metadata vol md))) = publisher (series (issue md))"
proof -
  have E: "fetch_publisher cv (md, mi, ci) = (Some pub, m1) \<Longrightarrow>
      fst (fetch_series cv m1 (cvp_id pub)) = None \<Longrightarrow>
      fetch cv (md, mi, ci)
        = (False, add_publisher_to_metadata pub md, add_publisher_to_metron_info pub mi,
                  add_publisher_to_comic_info pub ci)"
    using fetch_publisher_merges [of cv md mi ci pub m1] fetch_series_unchanged [of cv m1 "cvp_id pub"]
    by (cases "fetch_series cv m1 (cvp_id pub)") (simp add: fetch_def)
  have F: "fetch_publisher cv (md, mi, ci) = (Some pub, m1) \<Longrightarrow>
      fetch_series cv m1 (cvp_id pub) = (Some vol, m2) \<Longrightarrow>
      fst (fetch_issue cv m2 (cvv_id vol)) = None \<Longrightarrow>
      fetch cv (md, mi, ci)
        = (False, add_series_to_metadata vol (add_publisher_to_metadata pub md),
                  add_series_to_metron_info vol (add_publisher_to_metron_info pub mi),
                  add_series_to_comic_info vol (add_publisher_to_comic_info pub ci))"
    using fetch_publisher_merges [of cv md mi ci pub m1]
          fetch_series_merges [of cv "add_publisher_to_metadata pub md"
            "add_publisher_to_metron_info pub mi" "add_publisher_to_comic_info pub ci"
            "cvp_id pub" vol m2]
          fetch_issue_unchanged [of cv m2 "cvv_id vol"]
    by (cases "fetch_issue cv m2 (cvv_id vol)") (simp add: fetch_def)
  have G: "pub_title (publisher (series (issue (add_publisher_to_metadata pub md)))) = cvp_name pub
   \<and> \<lparr>source = COMICVINE, value = cvp_id pub\<rparr>
        \<in> set (pub_resources (publisher (series (issue (add_publisher_to_metadata pub md)))))
   \<and> ci_publisher (add_publisher_to_comic_info pub ci) = Some (cvp_name pub)
   \<and> mir_value (mi_publisher (add_publisher_to_metron_info pub mi)) = cvp_name pub
   \<and> series_title (series (issue (add_series_to_metadata vol md))) = cvv_name vol
   \<and> \<lparr>source = COMICVINE, value = cvv_id vol\<rparr>
        \<in> set (series_resources (series (issue (add_series_to_metadata vol md))))
   \<and> publisher (series (issue (add_series_to_metadata vol md))) = publisher (series (issue md))"
    by (simp add: add_publisher_to_metadata_def add_series_to_metadata_def Let_def
          py_set_add_set add_publisher_to_comic_info_def add_publisher_to_metron_info_def)
  have nonempty: "Some g \<in> set cs \<Longrightarrow> \<not> list_all Option.is_none cs" for g :: service and cs
    by (force simp: list_all_iff)
  have A: "configured_services svc settings = pre @ Some f # post \<Longrightarrow> all_fail pre m \<Longrightarrow>
      fst (f (after_services pre m)) \<Longrightarrow>
      fetch_from_services svc settings m = ([], snd (f (after_services pre m)))"
    using any_fetch_stops [of pre m f post] nonempty [of f "pre @ Some f # post"]
    by (simp add: fetch_from_services_def Let_def)
  have B: "Some g \<in> set (configured_services svc settings) \<Longrightarrow>
      all_fail (configured_services svc settings) m \<Longrightarrow>
      fetch_from_services svc settings m
        = ([Log WARNING ''Unable to fetch information fron any service''],
           after_services (configured_services svc settings) m)" for g
    using any_fetch_all_fail [of "configured_services svc settings" m]
          nonempty [of g "configured_services svc settings"]
    by (simp add: fetch_from_services_def Let_def)
  have C: "configured_services svc settings =
       [if \<exists>s. marvel settings = Some s \<and> truthy_str (public_key s) \<and> truthy_str (private_key s)
        then Some (marvel_fetch svc) else None,
        if \<exists>s. metron settings = Some s \<and> truthy_str (username s) \<and> truthy_str (password s)
        then Some (metron_fetch svc) else None,
        if \<exists>s. comicvine settings = Some s \<and> truthy_str (api_key s)
        then Some (fetch (comicvine_session svc)) else None,
        if \<exists>s. league_of_comic_geeks settings = Some s \<and> truthy_str (client_id s)
                \<and> truthy_str (client_secret s)
        then Some (league_fetch svc) else None]"
    by (simp add: configured_services_def Let_def split: option.split)
  have D: "(configured_services svc settings = pre @ Some f # post \<and> all_fail pre m
      \<and> fst (f (after_services pre m)) \<longrightarrow>
      fetch_from_services svc settings m = ([], snd (f (after_services pre m))))
   \<and> ((\<exists>f. Some f \<in> set (configured_services svc settings))
        \<and> all_fail (configured_services svc settings) m \<longrightarrow>
      fetch_from_services svc settings m
        = ([Log WARNING ''Unable to fetch information fron any service''],
           after_services (configured_services svc settings) m))
   \<and> ((\<exists>f. Some f \<in> set (configured_services svc settings))
        \<and> all_fail (configured_services svc settings) m
        \<and> (\<forall>f. Some f \<in> set (configured_services svc settings) \<longrightarrow> harmless_on_failure f) \<longrightarrow>
      snd (fetch_from_services svc settings m) = m)
   \<and> (fst (fetch_publisher cv m) = None \<longrightarrow> fetch cv m = (False, m))"
    using A B after_services_harmless [of "configured_services svc settings" m]
          fetch_fails_at_publisher [of cv m]
    by (metis snd_conv)
  show ?thesis
    using C D E F G by blast
qed

theorem enrichment_in_order_witness:
  "fetch_from_services example_services
      ((example_settings (Some \<lparr>api_key = Some ''key''\<rparr>))
         \<lparr>metron := Some \<lparr>username = Some ''u'', password = Some ''p''\<rparr>\<rparr>)
      (known_publisher, example_metron, example_comic)
     = ([], known_publisher, example_metron, example_comic)
   \<and> fetch_from_services example_services
      ((example_settings None)\<lparr>marvel := Some \<lparr>public_key = Some ''a'', private_key = Some ''b''\<rparr>\<rparr>)
      (known_publisher, example_metron, example_comic)
     = ([Log WARNING ''Unable to fetch information fron any service''],
        known_publisher, example_metron, example_comic)
   \<and> fetch example_session (stamped 0, example_metron, example_comic)
     = (False, stamped 0, example_metron, example_comic)
   \<and> fetch example_session (known_publisher, example_metron, example_comic)
     = (False,
        add_publisher_to_metadata \<lparr>cvp_id = 10, cvp_name = ''Image Comics''\<rparr> known_publisher,
        add_publisher_to_metron_info \<lparr>cvp_id = 10, cvp_name = ''Image Comics''\<rparr> example_metron,
        add_publisher_to_comic_info \<lparr>cvp_id = 10, cvp_name = ''Image Comics''\<rparr> example_comic)
   \<and> fetch example_session_series (known_series, example_metron, example_comic)
     = (False,
        add_series_to_metadata \<lparr>cvv_id = 20, cvv_name = ''Saga (2012)'', cvv_start_year = Some 2012\<rparr>
          (add_publisher_to_metadata \<lparr>cvp_id = 10, cvp_name = ''Image Comics''\<rparr> known_series),
        add_series_to_metron_info \<lparr>cvv_id = 20, cvv_name = ''Saga (2012)'', cvv_start_year = Some 2012\<rparr>
          (add_publisher_to_metron_info \<lparr>cvp_id = 10, cvp_name = ''Image Comics''\<rparr> example_metron),
        add_series_to_comic_info \<lparr>cvv_id = 20, cvv_name = ''Saga (2012)'', cvv_start_year = Some 2012\<rparr>
          (add_publisher_to_comic_info \<lparr>cvp_id = 10, cvp_name = ''Image Comics''\<rparr> example_comic))"
proof -
  let ?P = "\<lparr>cvp_id = 10, cvp_name = ''Image Comics''\<rparr>"
  let ?V = "\<lparr>cvv_id = 20, cvv_name = ''Saga (2012)'', cvv_start_year = Some 2012\<rparr>"
  let ?m1 = "(add_publisher_to_metadata ?P known_publisher,
              add_publisher_to_metron_info ?P example_metron,
              add_publisher_to_comic_info ?P example_comic)"
  let ?n1 = "(add_publisher_to_metadata ?P known_series,
              add_publisher_to_metron_info ?P example_metron,
              add_publisher_to_comic_info ?P example_comic)"
  let ?n2 = "(add_series_to_metadata ?V (add_publisher_to_metadata ?P known_series),
              add_series_to_metron_info ?V (add_publisher_to_metron_info ?P example_metron),
              add_series_to_comic_info ?V (add_publisher_to_comic_info ?P example_comic))"
  have e1: "fetch_publisher example_session (known_publisher, example_metron, example_comic)
      = (Some ?P, ?m1)"
    by code_simp
  have e2: "fst (fetch_series example_session ?m1 (cvp_id ?P)) = None"
    by code_simp
  have f1: "fetch_publisher example_session_series (known_series, example_metron, example_comic)
      = (Some ?P, ?n1)"
    by code_simp
  have f2: "fetch_series example_session_series ?n1 (cvp_id ?P) = (Some ?V, ?n2)"
    by code_simp
  have f3: "fst (fetch_issue example_session_series ?n2 (cvv_id ?V)) = None"
    by code_simp
  have 4: "fetch example_session (known_publisher, example_metron, example_comic) = (False, ?m1)"
    using enrichment_in_order [where cv = example_session and md = known_publisher
            and mi = example_metron and ci = example_comic and pub = ?P and ?m1.0 = ?m1]
          e1 e2
    by simp
  have 5: "fetch example_session_series (known_series, example_metron, example_comic)
      = (False, ?n2)"
    using enrichment_in_order [where cv = example_session_series and md = known_series
            and mi = example_metron and ci = example_comic and pub = ?P and ?m1.0 = ?n1
            and vol = ?V and ?m2.0 = ?n2]
          f1 f2 f3
    by simp
  let ?m = "(known_publisher, example_metron, example_comic)"
  let ?both = "(example_settings (Some \<lparr>api_key = Some ''key''\<rparr>))
         \<lparr>metron := Some \<lparr>username = Some ''u'', password = Some ''p''\<rparr>\<rparr>"
  let ?marvel = "(example_settings None)
         \<lparr>marvel := Some \<lparr>public_key = Some ''a'', private_key = Some ''b''\<rparr>\<rparr>"
  have c1: "configured_services example_services ?both
      = [None] @ Some (metron_fetch example_services)
          # [Some (fetch (comicvine_session example_services)), None]"
    by (simp add: configured_services_def example_settings_def truthy_str_def)
  have s1: "all_fail [None] ?m" "fst (metron_fetch example_services (after_services [None] ?m))"
    "snd (metron_fetch example_services (after_services [None] ?m)) = ?m"
    by (simp_all add: example_services_def)
  have c2: "configured_services example_services ?marvel
      = [Some (marvel_fetch example_services), None, None, None]"
    by (simp add: configured_services_def example_settings_def truthy_str_def)
  have s2: "all_fail [Some (marvel_fetch example_services), None, None, None] ?m"
    "after_services [Some (marvel_fetch example_services), None, None, None] ?m = ?m"
    by (simp_all add: example_services_def)
  have s3: "fst (fetch_publisher example_session (stamped 0, example_metron, example_comic)) = None"
    by code_simp
  have 1: "fetch_from_services example_services ?both ?m = ([], ?m)"
    using enrichment_in_order [of example_services ?both "[None]" "metron_fetch example_services"
            "[Some (fetch (comicvine_session example_services)), None]" ?m example_session]
          c1 s1
    by simp
  have 2: "fetch_from_services example_services ?marvel ?m
      = ([Log WARNING ''Unable to fetch information fron any service''], ?m)"
    using enrichment_in_order [of example_services ?marvel "[]" "marvel_fetch example_services"
            "[]" ?m example_session]
          c2 s2
    by simp
  have 3: "fetch example_session (stamped 0, example_metron, example_comic)
      = (False, stamped 0, example_metron, example_comic)"
    using enrichment_in_order [of example_services ?marvel "[]" "marvel_fetch example_services"
            "[]" "(stamped 0, example_metron, example_comic)" example_session]
          s3
    by simp
  show ?thesis
    using 1 2 3 4 5 by simp
qed

end
